theory Spec2Isabelle
  imports Main "HOL-Library.Word"
begin

section \<open>Python values that cross the gateway\<close>

text \<open>
  The functions modelled below never compute with a floating-point number: they hand
  it on. A Python float is therefore kept as the 64 bits of its IEEE 754 encoding.
\<close>

type_synonym pyfloat = "64 word"

text \<open>
  A decoded JSON document, as \<^verbatim>\<open>response.json()\<close> returns it. An object is the list
  of its members, each key once as in a Python dict; \<open>map_of\<close> reads a key.
\<close>

datatype json_value =
    JNull
  | JBool bool
  | JInt int
  | JFloat pyfloat
  | JStr string
  | JArr "json_value list"
  | JObj "(string \<times> json_value) list"

text \<open>The name Python prints for the type of a decoded JSON value.\<close>

fun type_name :: "json_value \<Rightarrow> string" where
  "type_name JNull = ''NoneType''"
| "type_name (JBool _) = ''bool''"
| "type_name (JInt _) = ''int''"
| "type_name (JFloat _) = ''float''"
| "type_name (JStr _) = ''str''"
| "type_name (JArr _) = ''list''"
| "type_name (JObj _) = ''dict''"

text \<open>\<^verbatim>\<open>str(n)\<close> for a non-negative integer: its decimal digits.\<close>

definition digit :: "nat \<Rightarrow> char" where
  "digit d = char_of (48 + d)"

fun str_nat :: "nat \<Rightarrow> string" where
  "str_nat n = (if n < 10 then [digit n] else str_nat (n div 10) @ [digit (n mod 10)])"

declare str_nat.simps [simp del]

text \<open>\<^verbatim>\<open>str.lower()\<close> on ASCII letters.\<close>

definition lower_char :: "char \<Rightarrow> char" where
  "lower_char c =
     (let n = (of_char c :: nat) in if 65 \<le> n \<and> n \<le> 90 then char_of (n + 32) else c)"

definition lower :: "string \<Rightarrow> string" where
  "lower s = map lower_char s"

text \<open>
  \<^verbatim>\<open>repr\<close> of a list of strings that hold no quote, backslash or control character
  (the model names): each string in single quotes, separated by a comma and a space.
\<close>

fun join_comma :: "string list \<Rightarrow> string" where
  "join_comma [] = []"
| "join_comma [s] = s"
| "join_comma (s # t # ss) = s @ '', '' @ join_comma (t # ss)"

definition repr_names :: "string list \<Rightarrow> string" where
  "repr_names ns = ''['' @ join_comma (map (\<lambda>s. [CHR 0x27] @ s @ [CHR 0x27]) ns) @ '']''"

section \<open>Exceptions\<close>

text \<open>
  What a library call (httpx, the JSON decoder, pydantic) can raise, each with the text
  \<^verbatim>\<open>str(e)\<close> gives. \<open>TimeoutException\<close> stands for httpx.TimeoutException and its
  subclasses, \<open>RequestError\<close> for every other httpx.RequestError, \<open>OtherException\<close>
  for any other subclass of Exception. Only subclasses of Exception are modelled: a
  cancelled task or an interpreter exit is outside the model.
\<close>

datatype lib_error =
    TimeoutException string
  | RequestError string
  | OtherException string

text \<open>
  What a request handler can raise: a fastapi.HTTPException with its status code and
  detail, or a library error nobody caught.
\<close>

datatype exn =
    HTTPException nat string
  | Uncaught lib_error

section \<open>config.py: Settings\<close>

text \<open>
  The two endpoint fields of \<open>Settings\<close>; both are \<^verbatim>\<open>Optional[str]\<close> with default
  None. The other fields (port, debug, timeouts, keys) are read by no function below.
\<close>

record Settings =
  kokkoro_endpoint :: "string option"
  chatterbox_endpoint :: "string option"

text \<open>
  \<^verbatim>\<open>getattr(settings, name, None)\<close> for the attribute names the gateway builds
  (\<^verbatim>\<open>env_var.lower()\<close> and \<^verbatim>\<open>f"{model_name}_endpoint"\<close>).
\<close>

definition getattr :: "Settings \<Rightarrow> string \<Rightarrow> string option" where
  "getattr settings name =
     (if name = ''kokkoro_endpoint'' then kokkoro_endpoint settings
      else if name = ''chatterbox_endpoint'' then chatterbox_endpoint settings
      else None)"

text \<open>Python truthiness of an \<^verbatim>\<open>Optional[str]\<close>: None and the empty string are false.\<close>

definition truthy :: "string option \<Rightarrow> bool" where
  "truthy e = (case e of None \<Rightarrow> False | Some s \<Rightarrow> s \<noteq> [])"

section \<open>models.py: request and response schemas\<close>

datatype AudioFormat = WAV | MP3 | OGG | FLAC

fun AudioFormat_value :: "AudioFormat \<Rightarrow> string" where
  "AudioFormat_value WAV = ''wav''"
| "AudioFormat_value MP3 = ''mp3''"
| "AudioFormat_value OGG = ''ogg''"
| "AudioFormat_value FLAC = ''flac''"

text \<open>
  \<open>TTSRequest\<close>, already validated by the framework before a handler runs. Field
  names carry the prefix \<open>req_\<close> (the response schema has fields of the same names).
\<close>

record TTSRequest =
  req_text :: string
  req_voice_id :: "string option"
  req_language :: "string option"
  req_format :: AudioFormat
  req_sample_rate :: "int option"
  req_speed :: "pyfloat option"
  req_pitch :: "pyfloat option"
  req_volume :: "pyfloat option"
  req_model_params :: "(string \<times> json_value) list option"
  req_normalize :: bool
  req_remove_silence :: bool

record TTSResponse =
  success :: bool
  audio_data :: "string option"
  audio_format :: AudioFormat
  duration :: "pyfloat option"
  sample_rate :: int
  model_used :: string
  voice_used :: "string option"
  language :: "string option"
  processing_time :: "pyfloat option"
  text_length :: int
  error :: "string option"
  warnings :: "string list option"

text \<open>\<^verbatim>\<open>request.dict()\<close>: the fields in declaration order, as the JSON the client sends.\<close>

definition opt_json :: "('a \<Rightarrow> json_value) \<Rightarrow> 'a option \<Rightarrow> json_value" where
  "opt_json f v = (case v of None \<Rightarrow> JNull | Some x \<Rightarrow> f x)"

definition dict :: "TTSRequest \<Rightarrow> (string \<times> json_value) list" where
  "dict request =
     [(''text'', JStr (req_text request)),
      (''voice_id'', opt_json JStr (req_voice_id request)),
      (''language'', opt_json JStr (req_language request)),
      (''format'', JStr (AudioFormat_value (req_format request))),
      (''sample_rate'', opt_json JInt (req_sample_rate request)),
      (''speed'', opt_json JFloat (req_speed request)),
      (''pitch'', opt_json JFloat (req_pitch request)),
      (''volume'', opt_json JFloat (req_volume request)),
      (''model_params'', opt_json JObj (req_model_params request)),
      (''normalize'', JBool (req_normalize request)),
      (''remove_silence'', JBool (req_remove_silence request))]"

section \<open>models.py: the TTSResponse schema under pydantic\<close>

text \<open>
  \<^verbatim>\<open>TTSResponse(**response_data)\<close> validates each field of the schema with the validator
  pydantic has for its type. A value of the declared type is taken as it is, and a JSON
  boolean given for an integer field becomes 1 or 0. What pydantic makes of any other
  value (a number for a string, a string for a number and so on) is left to
  \<open>conversions\<close>: \<open>None\<close> where it refuses the value. \<open>error_text\<close> is the text of
  the exception raised for a payload that is refused.
\<close>

record conversions =
  to_bool :: "json_value \<Rightarrow> bool option"
  to_str :: "json_value \<Rightarrow> string option"
  to_int :: "json_value \<Rightarrow> int option"
  to_float :: "json_value \<Rightarrow> pyfloat option"
  error_text :: "json_value \<Rightarrow> string"

definition bool_validator :: "conversions \<Rightarrow> json_value \<Rightarrow> bool option" where
  "bool_validator conv v = (case v of JBool b \<Rightarrow> Some b | _ \<Rightarrow> to_bool conv v)"

definition str_validator :: "conversions \<Rightarrow> json_value \<Rightarrow> string option" where
  "str_validator conv v = (case v of JStr s \<Rightarrow> Some s | _ \<Rightarrow> to_str conv v)"

definition int_validator :: "conversions \<Rightarrow> json_value \<Rightarrow> int option" where
  "int_validator conv v =
     (case v of
        JInt n \<Rightarrow> Some n
      | JBool b \<Rightarrow> Some (if b then 1 else 0)
      | _ \<Rightarrow> to_int conv v)"

definition float_validator :: "conversions \<Rightarrow> json_value \<Rightarrow> pyfloat option" where
  "float_validator conv v = (case v of JFloat f \<Rightarrow> Some f | _ \<Rightarrow> to_float conv v)"

text \<open>\<^verbatim>\<open>AudioFormat(v)\<close>: the member whose value equals \<open>v\<close>.\<close>

definition enum_member_validator :: "json_value \<Rightarrow> AudioFormat option" where
  "enum_member_validator v =
     (case v of
        JStr s \<Rightarrow>
          if s = ''wav'' then Some WAV
          else if s = ''mp3'' then Some MP3
          else if s = ''ogg'' then Some OGG
          else if s = ''flac'' then Some FLAC
          else None
      | _ \<Rightarrow> None)"

text \<open>\<^verbatim>\<open>List[str]\<close>: a JSON array whose items are not null and pass the string validator.\<close>

definition list_str_validator :: "conversions \<Rightarrow> json_value \<Rightarrow> string list option" where
  "list_str_validator conv v =
     (case v of
        JArr items \<Rightarrow>
          those (map (\<lambda>item. case item of JNull \<Rightarrow> None | _ \<Rightarrow> str_validator conv item) items)
      | _ \<Rightarrow> None)"

text \<open>
  A bound of \<open>Field\<close> (\<^verbatim>\<open>ge\<close>, \<^verbatim>\<open>le\<close>) is checked on what the validator returned.
  \<open>ge_zero\<close> is \<^verbatim>\<open>v >= 0\<close> on the bits of a double: zero of either sign, a positive
  number or plus infinity; no NaN.
\<close>

definition bounded :: "('a \<Rightarrow> bool) \<Rightarrow> 'a option \<Rightarrow> 'a option" where
  "bounded ok validated =
     (case validated of None \<Rightarrow> None | Some x \<Rightarrow> if ok x then Some x else None)"

definition ge_zero :: "pyfloat \<Rightarrow> bool" where
  "ge_zero f = (f \<le> 0x7FF0000000000000 \<or> f = 0x8000000000000000)"

text \<open>
  A required field must be present and not null. An \<^verbatim>\<open>Optional\<close> field defaults to
  None and accepts null.
\<close>

definition required ::
  "(json_value \<Rightarrow> 'a option) \<Rightarrow> (string \<times> json_value) list \<Rightarrow> string \<Rightarrow> 'a option" where
  "required validator members key =
     (case map_of members key of
        None \<Rightarrow> None
      | Some JNull \<Rightarrow> None
      | Some v \<Rightarrow> validator v)"

definition optional ::
  "(json_value \<Rightarrow> 'a option) \<Rightarrow> (string \<times> json_value) list \<Rightarrow> string \<Rightarrow> 'a option option" where
  "optional validator members key =
     (case map_of members key of
        None \<Rightarrow> Some None
      | Some JNull \<Rightarrow> Some None
      | Some v \<Rightarrow> (case validator v of None \<Rightarrow> None | Some x \<Rightarrow> Some (Some x)))"

text \<open>
  The fields of \<open>TTSResponse\<close> in the order of models.py, lines 84 to 105. Members of
  the payload that are no field of the schema are ignored (pydantic's default). A value
  that is no JSON object cannot be passed with \<^verbatim>\<open>**\<close>, and a member named like the
  first parameter of \<^verbatim>\<open>BaseModel.__init__\<close> collides with it: both raise a TypeError.
\<close>

definition TTSResponse_fields :: "conversions \<Rightarrow> (string \<times> json_value) list \<Rightarrow> TTSResponse option" where
  "TTSResponse_fields conv members =
     Option.bind (required (bool_validator conv) members ''success'') (\<lambda>f_success.
     Option.bind (optional (str_validator conv) members ''audio_data'') (\<lambda>f_audio_data.
     Option.bind (required enum_member_validator members ''audio_format'') (\<lambda>f_audio_format.
     Option.bind (optional (\<lambda>v. bounded ge_zero (float_validator conv v)) members ''duration'')
       (\<lambda>f_duration.
     Option.bind (required (\<lambda>v. bounded (\<lambda>n. 8000 \<le> n \<and> n \<le> 48000) (int_validator conv v))
                    members ''sample_rate'') (\<lambda>f_sample_rate.
     Option.bind (required (str_validator conv) members ''model_used'') (\<lambda>f_model_used.
     Option.bind (optional (str_validator conv) members ''voice_used'') (\<lambda>f_voice_used.
     Option.bind (optional (str_validator conv) members ''language'') (\<lambda>f_language.
     Option.bind (optional (\<lambda>v. bounded ge_zero (float_validator conv v)) members ''processing_time'')
       (\<lambda>f_processing_time.
     Option.bind (required (\<lambda>v. bounded (\<lambda>n. 1 \<le> n) (int_validator conv v)) members ''text_length'')
       (\<lambda>f_text_length.
     Option.bind (optional (str_validator conv) members ''error'') (\<lambda>f_error.
     Option.bind (optional (list_str_validator conv) members ''warnings'') (\<lambda>f_warnings.
       Some \<lparr>success = f_success, audio_data = f_audio_data, audio_format = f_audio_format,
             duration = f_duration, sample_rate = f_sample_rate, model_used = f_model_used,
             voice_used = f_voice_used, language = f_language,
             processing_time = f_processing_time, text_length = f_text_length,
             error = f_error, warnings = f_warnings\<rparr>))))))))))))"

definition TTSResponse_schema :: "conversions \<Rightarrow> json_value \<Rightarrow> string + TTSResponse" where
  "TTSResponse_schema conv payload =
     (case payload of
        JObj members \<Rightarrow>
          if ''__pydantic_self__'' \<in> set (map fst members) then Inl (error_text conv payload)
          else (case TTSResponse_fields conv members of
                  None \<Rightarrow> Inl (error_text conv payload)
                | Some r \<Rightarrow> Inr r)
      | _ \<Rightarrow> Inl (error_text conv payload))"

text \<open>\<^verbatim>\<open>response.dict()\<close>: the fields of a \<open>TTSResponse\<close> as JSON, None as null.\<close>

definition response_dict :: "TTSResponse \<Rightarrow> (string \<times> json_value) list" where
  "response_dict r =
     [(''success'', JBool (success r)),
      (''audio_data'', opt_json JStr (audio_data r)),
      (''audio_format'', JStr (AudioFormat_value (audio_format r))),
      (''duration'', opt_json JFloat (duration r)),
      (''sample_rate'', JInt (sample_rate r)),
      (''model_used'', JStr (model_used r)),
      (''voice_used'', opt_json JStr (voice_used r)),
      (''language'', opt_json JStr (language r)),
      (''processing_time'', opt_json JFloat (processing_time r)),
      (''text_length'', JInt (text_length r)),
      (''error'', opt_json JStr (error r)),
      (''warnings'', opt_json (\<lambda>ws. JArr (map JStr ws)) (warnings r))]"

text \<open>
  A member of a payload has the declared type of the field it names: a boolean for
  success, an integer for the two integer fields, a float or null for the two optional
  float fields, a string for the string fields and the format, null for an optional
  field, an array of strings for warnings.
\<close>

definition members_of :: "json_value \<Rightarrow> (string \<times> json_value) list" where
  "members_of v = (case v of JObj members \<Rightarrow> members | _ \<Rightarrow> [])"

definition is_str :: "json_value \<Rightarrow> bool" where
  "is_str v = (case v of JStr _ \<Rightarrow> True | _ \<Rightarrow> False)"

definition declared_type :: "string \<Rightarrow> json_value \<Rightarrow> bool" where
  "declared_type key v =
     (case v of
        JBool _ \<Rightarrow> key = ''success''
      | JInt _ \<Rightarrow> key \<in> {''sample_rate'', ''text_length''}
      | JFloat _ \<Rightarrow> key \<in> {''duration'', ''processing_time''}
      | JStr _ \<Rightarrow>
          key \<in> {''audio_data'', ''audio_format'', ''model_used'', ''voice_used'', ''language'',
                   ''error''}
      | JNull \<Rightarrow>
          key \<in> {''audio_data'', ''duration'', ''voice_used'', ''language'', ''processing_time'',
                   ''error'', ''warnings''}
      | JArr items \<Rightarrow> key = ''warnings'' \<and> list_all is_str items
      | JObj _ \<Rightarrow> False)"

section \<open>The HTTP client and the libraries\<close>

text \<open>
  An httpx response: its status code, its body as text, and what \<^verbatim>\<open>response.json()\<close>
  gives (\<open>Inl msg\<close> when decoding raises, with \<open>msg\<close> the text of the exception).
\<close>

record Response =
  status_code :: nat
  resp_text :: string
  resp_json :: "string + json_value"

text \<open>
  The response of \<^verbatim>\<open>client.stream\<close>: the status code, what reading
  \<^verbatim>\<open>response.text\<close> gives (\<open>Inl msg\<close> when it raises, as httpx does on a body that
  was never read), and the chunks of \<^verbatim>\<open>response.aiter_bytes()\<close>.
\<close>

record StreamResponse =
  stream_status_code :: nat
  stream_text :: "string + string"
  aiter_bytes :: "string list"

text \<open>
  \<open>AsyncClient\<close> is the backend as the gateway sees it: what each call of the client
  returns or raises for a URL, a JSON body and a timeout. \<open>get_ticks\<close> is the time, in
  clock ticks, after which the GET of a URL returns or raises.
\<close>

record AsyncClient =
  post :: "string \<Rightarrow> (string \<times> json_value) list \<Rightarrow> pyfloat \<Rightarrow> lib_error + Response"
  stream :: "string \<Rightarrow> (string \<times> json_value) list \<Rightarrow> pyfloat \<Rightarrow> lib_error + StreamResponse"
  get :: "string \<Rightarrow> pyfloat \<Rightarrow> lib_error + Response"
  get_ticks :: "string \<Rightarrow> nat"

text \<open>
  Library behaviour the gateway calls and does not define:
  \<open>TTSResponse_init\<close> is \<^verbatim>\<open>TTSResponse(**response_data)\<close>, the schema validation of
  pydantic (\<open>Inl msg\<close> when it raises: a TypeError when the value is no mapping, a
  ValidationError when a field is missing or ill-typed), of which \<open>TTSResponse_schema\<close>
  above is the instance for the schema of models.py; \<open>str_value\<close> is \<^verbatim>\<open>str()\<close>
  of a JSON value that is not a string.
\<close>

record library =
  TTSResponse_init :: "json_value \<Rightarrow> string + TTSResponse"
  str_value :: "json_value \<Rightarrow> string"

text \<open>How an f-string formats a decoded JSON value: a string stands for itself.\<close>

definition format_value :: "library \<Rightarrow> json_value \<Rightarrow> string" where
  "format_value lib v = (case v of JStr s \<Rightarrow> s | _ \<Rightarrow> str_value lib v)"

text \<open>The timeouts the source writes: 60.0, 120.0 and 5.0 seconds, as IEEE 754 doubles.\<close>

definition timeout_60 :: pyfloat where "timeout_60 = 0x404E000000000000"
definition timeout_120 :: pyfloat where "timeout_120 = 0x405E000000000000"
definition timeout_5 :: pyfloat where "timeout_5 = 0x4014000000000000"

section \<open>main.py: the dispatcher\<close>

definition MODEL_ENDPOINTS :: "(string \<times> string) list" where
  "MODEL_ENDPOINTS = [(''kokkoro'', ''KOKKORO_ENDPOINT''), (''chatterbox'', ''CHATTERBOX_ENDPOINT'')]"

definition forward_request ::
  "string \<Rightarrow> (string \<times> json_value) list \<Rightarrow> AsyncClient \<Rightarrow> pyfloat \<Rightarrow> exn + Response" where
  "forward_request endpoint request_data client timeout =
     (case post client (endpoint @ ''/generate'') request_data timeout of
        Inr response \<Rightarrow> Inr response
      | Inl (TimeoutException _) \<Rightarrow>
          Inl (HTTPException 504 (''Model endpoint timeout: '' @ endpoint))
      | Inl (RequestError _) \<Rightarrow>
          Inl (HTTPException 503 (''Cannot reach model endpoint: '' @ endpoint))
      | Inl (OtherException msg) \<Rightarrow>
          Inl (HTTPException 500 (''Internal server error: '' @ msg)))"

text \<open>
  The body of the \<^verbatim>\<open>try\<close> of \<open>generate_tts\<close> once the response is there. An
  HTTPException is raised as it is; any other exception is \<open>Uncaught\<close> here and becomes
  a 500 in the handler below.
\<close>

definition classify_response :: "library \<Rightarrow> Response \<Rightarrow> exn + TTSResponse" where
  "classify_response lib response =
     (if status_code response = 200 then
        (case resp_json response of
           Inl msg \<Rightarrow> Inl (Uncaught (OtherException msg))
         | Inr response_data \<Rightarrow>
             (case TTSResponse_init lib response_data of
                Inl msg \<Rightarrow> Inl (Uncaught (OtherException msg))
              | Inr r \<Rightarrow> Inr r))
      else if status_code response = 422 then
        (case resp_json response of
           Inl msg \<Rightarrow> Inl (Uncaught (OtherException msg))
         | Inr (JObj members) \<Rightarrow>
             (let error_detail =
                (case map_of members ''detail'' of
                   None \<Rightarrow> JStr ''Validation error''
                 | Some d \<Rightarrow> d)
              in Inl (HTTPException 422
                   (''Model validation error: '' @ format_value lib error_detail)))
         | Inr v \<Rightarrow>
             Inl (Uncaught (OtherException
               ([CHR 0x27] @ type_name v @ [CHR 0x27] @ '' object has no attribute ''
                 @ [CHR 0x27] @ ''get'' @ [CHR 0x27]))))
      else
        (let error_detail =
           (if resp_text response \<noteq> [] then resp_text response
            else ''HTTP '' @ str_nat (status_code response))
         in Inl (HTTPException (status_code response)
              (''Model endpoint error: '' @ error_detail))))"

definition generate_tts ::
  "library \<Rightarrow> string \<Rightarrow> TTSRequest \<Rightarrow> Settings \<Rightarrow> AsyncClient \<Rightarrow> exn + TTSResponse" where
  "generate_tts lib model_name request settings client =
     (case map_of MODEL_ENDPOINTS model_name of
        None \<Rightarrow>
          Inl (HTTPException 400
            (''Unknown model: '' @ model_name @ ''. Available models: ''
               @ repr_names (map fst MODEL_ENDPOINTS)))
      | Some env_var \<Rightarrow>
          (case getattr settings (lower env_var) of
             None \<Rightarrow>
               Inl (HTTPException 503
                 (''Model '' @ model_name @ '' is not configured. Please set ''
                    @ env_var @ '' environment variable.''))
           | Some endpoint \<Rightarrow>
               if endpoint = [] then
                 Inl (HTTPException 503
                   (''Model '' @ model_name @ '' is not configured. Please set ''
                      @ env_var @ '' environment variable.''))
               else
                 (let request_data = dict request @ [(''model'', JStr model_name)] in
                  case (case forward_request endpoint request_data client timeout_60 of
                          Inl e \<Rightarrow> Inl e
                        | Inr response \<Rightarrow> classify_response lib response) of
                    Inr r \<Rightarrow> Inr r
                  | Inl (HTTPException code detail) \<Rightarrow> Inl (HTTPException code detail)
                  | Inl (Uncaught e) \<Rightarrow>
                      Inl (HTTPException 500
                        (''Internal server error: ''
                           @ (case e of TimeoutException m \<Rightarrow> m
                                | RequestError m \<Rightarrow> m
                                | OtherException m \<Rightarrow> m))))))"

text \<open>
  With a configured endpoint the dispatcher is its \<^verbatim>\<open>try\<close> block under its two
  handlers: an HTTPException passes, any other exception becomes a 500.
\<close>

definition handled :: "exn + TTSResponse \<Rightarrow> exn + TTSResponse" where
  "handled outcome =
     (case outcome of
        Inr r \<Rightarrow> Inr r
      | Inl (HTTPException code detail) \<Rightarrow> Inl (HTTPException code detail)
      | Inl (Uncaught e) \<Rightarrow>
          Inl (HTTPException 500
            (''Internal server error: ''
               @ (case e of TimeoutException m \<Rightarrow> m
                    | RequestError m \<Rightarrow> m
                    | OtherException m \<Rightarrow> m))))"

text \<open>\<^verbatim>\<open>Settings.get_model_endpoint\<close> of config.py.\<close>

definition get_model_endpoint :: "Settings \<Rightarrow> string \<Rightarrow> string option" where
  "get_model_endpoint settings model_name = getattr settings (model_name @ ''_endpoint'')"

section \<open>main.py: the streaming negotiator\<close>

text \<open>
  What \<open>generate_tts_stream\<close> returns: the value of the dispatcher on the fallback
  path. \<open>Streamed\<close> stands for the \<^verbatim>\<open>Response(generate(), media_type, headers)\<close> the
  handler means to return over the chunks of the backend's stream; the constructor of
  \<^verbatim>\<open>Response\<close> encodes its content at once and raises an AttributeError on a
  generator, so the handler raises there.
\<close>

datatype stream_return =
    Dispatched TTSResponse
  | Streamed "string list" string "(string \<times> string) list"

text \<open>\<^verbatim>\<open>response.raise_for_status()\<close> raises HTTPStatusError unless the status is 2xx.\<close>

definition raises_for_status :: "StreamResponse \<Rightarrow> bool" where
  "raises_for_status response =
     (\<not> (200 \<le> stream_status_code response \<and> stream_status_code response \<le> 299))"

definition fallback :: "exn + TTSResponse \<Rightarrow> exn + stream_return" where
  "fallback outcome = (case outcome of Inl e \<Rightarrow> Inl e | Inr r \<Rightarrow> Inr (Dispatched r))"

definition generate_tts_stream ::
  "library \<Rightarrow> string \<Rightarrow> TTSRequest \<Rightarrow> Settings \<Rightarrow> AsyncClient \<Rightarrow> exn + stream_return" where
  "generate_tts_stream lib model_name request settings client =
     (case map_of MODEL_ENDPOINTS model_name of
        None \<Rightarrow> Inl (HTTPException 400 (''Unknown model: '' @ model_name))
      | Some env_var \<Rightarrow>
          (case getattr settings (lower env_var) of
             None \<Rightarrow>
               Inl (HTTPException 503 (''Model '' @ model_name @ '' is not configured''))
           | Some endpoint \<Rightarrow>
               if endpoint = [] then
                 Inl (HTTPException 503 (''Model '' @ model_name @ '' is not configured''))
               else
                 (let stream_endpoint = endpoint @ ''/generate/stream'';
                      request_data = dict request @ [(''model'', JStr model_name)]
                  in case stream client stream_endpoint request_data timeout_120 of
                       Inl e \<Rightarrow> Inl (Uncaught e)
                     | Inr response \<Rightarrow>
                         if stream_status_code response = 404 then
                           fallback (generate_tts lib model_name request settings client)
                         else if raises_for_status response then
                           (if stream_status_code response = 404 then
                              fallback (generate_tts lib model_name request settings client)
                            else
                              (case stream_text response of
                                 Inl msg \<Rightarrow> Inl (Uncaught (OtherException msg))
                               | Inr body \<Rightarrow>
                                   Inl (HTTPException (stream_status_code response)
                                     (''Model endpoint error: '' @ body))))
                         else
                           Inl (Uncaught (OtherException
                             ([CHR 0x27] @ ''async_generator'' @ [CHR 0x27]
                                @ '' object has no attribute '' @ [CHR 0x27] @ ''encode''
                                @ [CHR 0x27]))))))"

section \<open>health.py\<close>

text \<open>
  The state of the gateway process: the two globals of health.py, and a record of the
  probes issued so far. \<open>waited\<close> is the time the process has spent awaiting probes;
  each probe is logged with the moments it started and finished on that clock.
\<close>

record probe =
  probe_url :: string
  started :: nat
  finished :: nat

record state =
  start_time :: pyfloat
  request_counter :: nat
  waited :: nat
  probes :: "probe list"

text \<open>Readings of the wall clock and of psutil, which the handlers only copy.\<close>

record readings =
  timestamp_now :: string
  uptime_now :: pyfloat
  memory_percent :: "pyfloat option"
  cpu_percent :: "pyfloat option"

definition increment_request_count :: "state \<Rightarrow> state" where
  "increment_request_count st = st\<lparr>request_counter := request_counter st + 1\<rparr>"

text \<open>
  \<open>check_model_health\<close> awaits one GET: the caller resumes when it has returned or
  raised, \<open>get_ticks\<close> later. \<open>client\<close> is the client \<^verbatim>\<open>httpx.AsyncClient()\<close> opens.
\<close>

definition check_model_health ::
  "AsyncClient \<Rightarrow> string \<Rightarrow> pyfloat \<Rightarrow> state \<Rightarrow> (exn + bool) \<times> state" where
  "check_model_health client endpoint timeout st =
     (let url = endpoint @ ''/health'';
          done = waited st + get_ticks client url;
          st' = st\<lparr>waited := done,
                   probes := probes st @ [\<lparr>probe_url = url, started = waited st, finished = done\<rparr>]\<rparr>
      in case get client url timeout of
           Inr response \<Rightarrow> (Inr (status_code response = 200), st')
         | Inl e \<Rightarrow> (Inr False, st'))"

definition get_models_status ::
  "AsyncClient \<Rightarrow> Settings \<Rightarrow> state \<Rightarrow> (exn + (string \<times> bool) list) \<times> state" where
  "get_models_status client settings st =
     (case (case kokkoro_endpoint settings of
              None \<Rightarrow> (Inr False, st)
            | Some endpoint \<Rightarrow>
                if endpoint \<noteq> [] then check_model_health client endpoint timeout_5 st
                else (Inr False, st)) of
        (Inl e, st1) \<Rightarrow> (Inl e, st1)
      | (Inr kokkoro, st1) \<Rightarrow>
          (case (case chatterbox_endpoint settings of
                   None \<Rightarrow> (Inr False, st1)
                 | Some endpoint \<Rightarrow>
                     if endpoint \<noteq> [] then check_model_health client endpoint timeout_5 st1
                     else (Inr False, st1)) of
             (Inl e, st2) \<Rightarrow> (Inl e, st2)
           | (Inr chatterbox, st2) \<Rightarrow>
               (Inr [(''kokkoro'', kokkoro), (''chatterbox'', chatterbox)], st2)))"

record HealthResponse =
  status :: string
  timestamp :: string
  version :: string
  uptime :: pyfloat
  request_count :: "nat option"
  models :: "(string \<times> bool) list"
  memory_usage :: "pyfloat option"
  cpu_usage :: "pyfloat option"

text \<open>Lines 92 and 93 of health.py: \<^verbatim>\<open>any(models_status.values())\<close> decides the status.\<close>

definition overall_status :: "(string \<times> bool) list \<Rightarrow> string" where
  "overall_status models_status =
     (let any_model_available = list_ex (\<lambda>v. v) (map snd models_status)
      in if any_model_available then ''healthy'' else ''degraded'')"

definition health_check ::
  "readings \<Rightarrow> AsyncClient \<Rightarrow> Settings \<Rightarrow> state \<Rightarrow> (exn + HealthResponse) \<times> state" where
  "health_check sys client settings st =
     (let st0 = increment_request_count st in
      case get_models_status client settings st0 of
        (Inl e, st1) \<Rightarrow> (Inl e, st1)
      | (Inr models_status, st1) \<Rightarrow>
          (Inr \<lparr>status = overall_status models_status,
                timestamp = timestamp_now sys,
                version = ''1.0.0'',
                uptime = uptime_now sys,
                request_count = Some (request_counter st1),
                models = models_status,
                memory_usage = memory_percent sys,
                cpu_usage = cpu_percent sys\<rparr>, st1))"

definition quick_health_check :: "readings \<Rightarrow> state \<Rightarrow> (string \<times> string) list \<times> state" where
  "quick_health_check sys st =
     ([(''status'', ''ok''), (''timestamp'', timestamp_now sys)], increment_request_count st)"

record ModelDetail =
  healthy :: bool
  endpoint :: "string option"
  configured :: bool

record ModelsHealth =
  detailed_status :: "(string \<times> ModelDetail) list"
  checked_at :: string
  total_healthy :: nat
  total_configured :: nat

definition models_health_check ::
  "readings \<Rightarrow> AsyncClient \<Rightarrow> Settings \<Rightarrow> state \<Rightarrow> (exn + ModelsHealth) \<times> state" where
  "models_health_check sys client settings st =
     (case get_models_status client settings st of
        (Inl e, st1) \<Rightarrow> (Inl e, st1)
      | (Inr models_status, st1) \<Rightarrow>
          (let detailed =
                 map (\<lambda>(model_name, is_healthy).
                        (model_name,
                         \<lparr>healthy = is_healthy,
                          endpoint = getattr settings (model_name @ ''_endpoint''),
                          configured = truthy (getattr settings (model_name @ ''_endpoint''))\<rparr>))
                     models_status
           in (Inr \<lparr>detailed_status = detailed,
                     checked_at = timestamp_now sys,
                     total_healthy = length (filter (\<lambda>v. v) (map snd models_status)),
                     total_configured = length (filter (\<lambda>m. configured (snd m)) detailed)\<rparr>,
               st1)))"

text \<open>
  The JSONResponse of \<open>single_model_health_check\<close>: the members of its content and its
  HTTP status. \<open>one_error\<close> and \<open>one_endpoint\<close> are None where the content has no such key.
\<close>

record ModelHealth =
  one_model :: string
  one_healthy :: bool
  one_configured :: bool
  one_error :: "string option"
  one_endpoint :: "string option"
  one_timestamp :: string
  http_status :: nat

definition single_model_health_check ::
  "readings \<Rightarrow> AsyncClient \<Rightarrow> string \<Rightarrow> Settings \<Rightarrow> state \<Rightarrow> (exn + ModelHealth) \<times> state" where
  "single_model_health_check sys client model_name settings st =
     (if model_name \<notin> set [''kokkoro'', ''chatterbox''] then
        (Inl (HTTPException 404
           (''Model '' @ [CHR 0x27] @ model_name @ [CHR 0x27] @ '' not found'')), st)
      else
        (case getattr settings (model_name @ ''_endpoint'') of
           None \<Rightarrow>
             (Inr \<lparr>one_model = model_name, one_healthy = False, one_configured = False,
                   one_error = Some (''Model '' @ model_name @ '' is not configured''),
                   one_endpoint = None, one_timestamp = timestamp_now sys,
                   http_status = 503\<rparr>, st)
         | Some ep \<Rightarrow>
             if ep = [] then
               (Inr \<lparr>one_model = model_name, one_healthy = False, one_configured = False,
                     one_error = Some (''Model '' @ model_name @ '' is not configured''),
                     one_endpoint = None, one_timestamp = timestamp_now sys,
                     http_status = 503\<rparr>, st)
             else
               (case check_model_health client ep timeout_5 st of
                  (Inl e, st1) \<Rightarrow> (Inl e, st1)
                | (Inr is_healthy, st1) \<Rightarrow>
                    (Inr \<lparr>one_model = model_name, one_healthy = is_healthy,
                          one_configured = True, one_error = None,
                          one_endpoint = Some ep, one_timestamp = timestamp_now sys,
                          http_status = (if is_healthy then 200 else 503)\<rparr>, st1))))"

section \<open>The routes of the application\<close>

text \<open>
  One inbound request against the running process: the route table of main.py, with
  the health router mounted under /health. The handlers of main.py neither call
  \<open>increment_request_count\<close> nor name a global of health.py, so the state leaves
  them as it entered.
\<close>

datatype inbound =
    PostTTS string TTSRequest
  | PostTTSStream string TTSRequest
  | GetHealth
  | GetHealthQuick
  | GetHealthModels
  | GetHealthModel string

datatype outbound =
    TTSOut "exn + TTSResponse"
  | StreamOut "exn + stream_return"
  | HealthOut "exn + HealthResponse"
  | QuickOut "(string \<times> string) list"
  | ModelsOut "exn + ModelsHealth"
  | ModelOut "exn + ModelHealth"

record app =
  app_lib :: library
  app_settings :: Settings
  app_client :: AsyncClient
  probe_client :: AsyncClient
  app_readings :: readings

fun serve :: "app \<Rightarrow> inbound \<Rightarrow> state \<Rightarrow> outbound \<times> state" where
  "serve a (PostTTS model_name request) st =
     (TTSOut (generate_tts (app_lib a) model_name request (app_settings a) (app_client a)), st)"
| "serve a (PostTTSStream model_name request) st =
     (StreamOut (generate_tts_stream (app_lib a) model_name request (app_settings a) (app_client a)), st)"
| "serve a GetHealth st =
     (case health_check (app_readings a) (probe_client a) (app_settings a) st of
        (r, st') \<Rightarrow> (HealthOut r, st'))"
| "serve a GetHealthQuick st =
     (case quick_health_check (app_readings a) st of (r, st') \<Rightarrow> (QuickOut r, st'))"
| "serve a GetHealthModels st =
     (case models_health_check (app_readings a) (probe_client a) (app_settings a) st of
        (r, st') \<Rightarrow> (ModelsOut r, st'))"
| "serve a (GetHealthModel model_name) st =
     (case single_model_health_check (app_readings a) (probe_client a) model_name (app_settings a) st of
        (r, st') \<Rightarrow> (ModelOut r, st'))"

text \<open>Requests served one after the other; the state after the last.\<close>

fun serve_all :: "app \<Rightarrow> inbound list \<Rightarrow> state \<Rightarrow> state" where
  "serve_all a [] st = st"
| "serve_all a (r # rs) st = serve_all a rs (snd (serve a r st))"

section \<open>Sample inputs\<close>

text \<open>
  The request of the specification's scenarios (text "Hello", defaults elsewhere; the
  float 1.0 is \<open>0x3FF0000000000000\<close>), two settings, and backends that answer every
  call the same way.
\<close>

definition hello_request :: TTSRequest where
  "hello_request =
     \<lparr>req_text = ''Hello'', req_voice_id = None, req_language = Some ''en'',
      req_format = WAV, req_sample_rate = Some 22050,
      req_speed = Some 0x3FF0000000000000, req_pitch = Some 0x3FF0000000000000,
      req_volume = Some 0x3FF0000000000000, req_model_params = None,
      req_normalize = True, req_remove_silence = False\<rparr>"

definition kokkoro_only :: Settings where
  "kokkoro_only = \<lparr>kokkoro_endpoint = Some ''http://kokkoro:8001'', chatterbox_endpoint = None\<rparr>"

definition both_configured :: Settings where
  "both_configured =
     \<lparr>kokkoro_endpoint = Some ''http://kokkoro:8001'',
      chatterbox_endpoint = Some ''http://chatterbox:8002''\<rparr>"

definition failing_client :: "lib_error \<Rightarrow> AsyncClient" where
  "failing_client e =
     \<lparr>post = (\<lambda>url body timeout. Inl e), stream = (\<lambda>url body timeout. Inl e),
      get = (\<lambda>url timeout. Inl e), get_ticks = (\<lambda>url. 0)\<rparr>"

definition answering_client :: "Response \<Rightarrow> StreamResponse \<Rightarrow> AsyncClient" where
  "answering_client r s =
     \<lparr>post = (\<lambda>url body timeout. Inr r), stream = (\<lambda>url body timeout. Inr s),
      get = (\<lambda>url timeout. Inr r), get_ticks = (\<lambda>url. 0)\<rparr>"

text \<open>
  A sample of the library: the schema with conversions that refuse every value that is
  not of the declared type.
\<close>

definition refusing :: conversions where
  "refusing =
     \<lparr>to_bool = (\<lambda>v. None), to_str = (\<lambda>v. None), to_int = (\<lambda>v. None),
      to_float = (\<lambda>v. None),
      error_text = (\<lambda>v. case v of
                          JObj _ \<Rightarrow> ''validation error for TTSResponse''
                        | _ \<Rightarrow> ''argument after ** must be a mapping'')\<rparr>"

definition sample_init :: "json_value \<Rightarrow> string + TTSResponse" where
  "sample_init = TTSResponse_schema refusing"

definition sample_library :: library where
  "sample_library = \<lparr>TTSResponse_init = sample_init, str_value = (\<lambda>v. type_name v)\<rparr>"

definition sample_payload :: json_value where
  "sample_payload =
     JObj [(''success'', JBool True), (''audio_data'', JStr ''UklGRg==''),
           (''audio_format'', JStr ''wav''), (''sample_rate'', JInt 22050),
           (''model_used'', JStr ''kokkoro''), (''text_length'', JInt 5)]"

definition sample_response :: TTSResponse where
  "sample_response =
     \<lparr>success = True, audio_data = Some ''UklGRg=='', audio_format = WAV, duration = None,
      sample_rate = 22050, model_used = ''kokkoro'', voice_used = None, language = None,
      processing_time = None, text_length = 5, error = None, warnings = None\<rparr>"

definition not_found_stream :: StreamResponse where
  "not_found_stream =
     \<lparr>stream_status_code = 404, stream_text = Inl ''ResponseNotRead'', aiter_bytes = []\<rparr>"

definition fresh :: state where
  "fresh = \<lparr>start_time = 0, request_counter = 0, waited = 0, probes = []\<rparr>"

definition quoted :: "string \<Rightarrow> string" where
  "quoted s = [CHR 0x22] @ s @ [CHR 0x22]"

text \<open>The text of \<open>sample_payload\<close> as the backend sends it.\<close>

definition sample_text :: string where
  "sample_text =
     ''{'' @ quoted ''success'' @ '': true, '' @ quoted ''audio_data'' @ '': '' @ quoted ''UklGRg==''
       @ '', '' @ quoted ''audio_format'' @ '': '' @ quoted ''wav''
       @ '', '' @ quoted ''sample_rate'' @ '': 22050, ''
       @ quoted ''model_used'' @ '': '' @ quoted ''kokkoro''
       @ '', '' @ quoted ''text_length'' @ '': 5}''"

definition answer :: "nat \<Rightarrow> Response" where
  "answer code = \<lparr>status_code = code, resp_text = sample_text, resp_json = Inr sample_payload\<rparr>"

text \<open>A 204 of the backend: no body.\<close>

definition empty_204 :: Response where
  "empty_204 = \<lparr>status_code = 204, resp_text = [], resp_json = Inl ''Expecting value''\<rparr>"

text \<open>
  The sample payload with a member that is no field of the schema, and with the text
  length given as a boolean.
\<close>

definition bitrate_payload :: json_value where
  "bitrate_payload =
     JObj [(''success'', JBool True), (''audio_data'', JStr ''UklGRg==''),
           (''audio_format'', JStr ''wav''), (''sample_rate'', JInt 22050),
           (''model_used'', JStr ''kokkoro''), (''text_length'', JInt 5),
           (''bitrate'', JInt 128)]"

definition bitrate_answer :: Response where
  "bitrate_answer =
     \<lparr>status_code = 200,
      resp_text = butlast sample_text @ '', '' @ quoted ''bitrate'' @ '': 128}'',
      resp_json = Inr bitrate_payload\<rparr>"

definition boolean_payload :: json_value where
  "boolean_payload =
     JObj [(''success'', JBool True), (''audio_data'', JStr ''UklGRg==''),
           (''audio_format'', JStr ''wav''), (''sample_rate'', JInt 22050),
           (''model_used'', JStr ''kokkoro''), (''text_length'', JBool True)]"

definition boolean_answer :: Response where
  "boolean_answer =
     \<lparr>status_code = 200,
      resp_text =
        ''{'' @ quoted ''success'' @ '': true, '' @ quoted ''audio_data'' @ '': '' @ quoted ''UklGRg==''
          @ '', '' @ quoted ''audio_format'' @ '': '' @ quoted ''wav''
          @ '', '' @ quoted ''sample_rate'' @ '': 22050, ''
          @ quoted ''model_used'' @ '': '' @ quoted ''kokkoro''
          @ '', '' @ quoted ''text_length'' @ '': true}'',
      resp_json = Inr boolean_payload\<rparr>"

text \<open>A backend whose health route answers 200 after 3 ticks for kokkoro and 4 for chatterbox.\<close>

definition slow_client :: AsyncClient where
  "slow_client =
     \<lparr>post = (\<lambda>url body timeout. Inl (RequestError ''unused'')),
      stream = (\<lambda>url body timeout. Inl (RequestError ''unused'')),
      get = (\<lambda>url timeout. Inr \<lparr>status_code = 200, resp_text = ''ok'', resp_json = Inl ''no JSON''\<rparr>),
      get_ticks = (\<lambda>url. if url = ''http://kokkoro:8001/health'' then 3 else 4)\<rparr>"

definition garbled :: Response where
  "garbled = \<lparr>status_code = 200, resp_text = ''<html>'', resp_json = Inl ''Expecting value''\<rparr>"

definition off_schema :: Response where
  "off_schema = \<lparr>status_code = 200, resp_text = ''[1]'', resp_json = Inr (JArr [JInt 1])\<rparr>"

text \<open>A 422 of the backend with a given result of decoding its body.\<close>

definition rejected :: "string + json_value \<Rightarrow> Response" where
  "rejected j = \<lparr>status_code = 422, resp_text = ''Unprocessable Entity'', resp_json = j\<rparr>"

definition sample_readings :: readings where
  "sample_readings =
     \<lparr>timestamp_now = ''2025-08-14T10:30:00+00:00'', uptime_now = 0,
      memory_percent = None, cpu_percent = None\<rparr>"

section \<open>Notions of the specification\<close>

text \<open>
  The configured entries of the registry, in registry order: the endpoints that are
  neither None nor empty.
\<close>

definition configured_endpoints :: "Settings \<Rightarrow> string list" where
  "configured_endpoints settings =
     concat (map (\<lambda>model_name.
                    case get_model_endpoint settings model_name of
                      None \<Rightarrow> []
                    | Some ep \<Rightarrow> if ep = [] then [] else [ep])
                 [''kokkoro'', ''chatterbox''])"

text \<open>
  Probes that ran one after the other from time \<open>t\<close>: each starts when the one before
  it has finished.
\<close>

fun sequential :: "nat \<Rightarrow> probe list \<Rightarrow> bool" where
  "sequential t [] = True"
| "sequential t (p # ps) = (started p = t \<and> sequential (finished p) ps)"

text \<open>
  What one registry entry contributes to an aggregation run: an entry without endpoint
  is unhealthy and the state stays as it was; a configured entry is probed.
\<close>

definition is_up :: "AsyncClient \<Rightarrow> string \<Rightarrow> pyfloat \<Rightarrow> bool" where
  "is_up client ep timeout =
     (case get client (ep @ ''/health'') timeout of
        Inr response \<Rightarrow> status_code response = 200
      | Inl e \<Rightarrow> False)"

definition logged :: "AsyncClient \<Rightarrow> string \<Rightarrow> state \<Rightarrow> state" where
  "logged client ep st =
     st\<lparr>waited := waited st + get_ticks client (ep @ ''/health''),
        probes := probes st @
          [\<lparr>probe_url = ep @ ''/health'', started = waited st,
            finished = waited st + get_ticks client (ep @ ''/health'')\<rparr>]\<rparr>"

definition entry_status :: "AsyncClient \<Rightarrow> string option \<Rightarrow> state \<Rightarrow> bool \<times> state" where
  "entry_status client e st =
     (case e of
        None \<Rightarrow> (False, st)
      | Some ep \<Rightarrow> if ep = [] then (False, st) else (is_up client ep timeout_5, logged client ep st))"

section \<open>Resolving a model name\<close>

lemma lower_KOKKORO: "lower ''KOKKORO_ENDPOINT'' = ''kokkoro_endpoint''"
  by code_simp

lemma lower_CHATTERBOX: "lower ''CHATTERBOX_ENDPOINT'' = ''chatterbox_endpoint''"
  by code_simp

lemma map_of_MODEL_ENDPOINTS:
  "map_of MODEL_ENDPOINTS model_name =
     (if model_name = ''kokkoro'' then Some ''KOKKORO_ENDPOINT''
      else if model_name = ''chatterbox'' then Some ''CHATTERBOX_ENDPOINT''
      else None)"
  by (simp add: MODEL_ENDPOINTS_def)

lemma get_model_endpoint_simps:
  "get_model_endpoint settings ''kokkoro'' = kokkoro_endpoint settings"
  "get_model_endpoint settings ''chatterbox'' = chatterbox_endpoint settings"
  by (simp_all add: get_model_endpoint_def getattr_def)

lemma resolve_endpoint:
  assumes "model_name \<in> {''kokkoro'', ''chatterbox''}"
  shows "\<exists>env_var. map_of MODEL_ENDPOINTS model_name = Some env_var
           \<and> getattr settings (lower env_var) = get_model_endpoint settings model_name"
  using assms
  by (auto simp: map_of_MODEL_ENDPOINTS lower_KOKKORO lower_CHATTERBOX getattr_def
      get_model_endpoint_simps)

section \<open>The dispatcher\<close>

lemma generate_tts_unknown:
  assumes "model_name \<notin> {''kokkoro'', ''chatterbox''}"
  shows "\<exists>detail. generate_tts lib model_name request settings client
                     = Inl (HTTPException 400 detail)"
  using assms by (simp add: generate_tts_def map_of_MODEL_ENDPOINTS)

lemma generate_tts_unconfigured:
  assumes "model_name \<in> {''kokkoro'', ''chatterbox''}"
    and "\<not> truthy (get_model_endpoint settings model_name)"
  shows "\<exists>detail. generate_tts lib model_name request settings client
                     = Inl (HTTPException 503 detail)"
proof -
  from resolve_endpoint [OF assms(1)] obtain env_var where
    ev: "map_of MODEL_ENDPOINTS model_name = Some env_var"
      "getattr settings (lower env_var) = get_model_endpoint settings model_name"
    by blast
  show ?thesis
    using assms(2) by (simp add: generate_tts_def ev truthy_def split: option.splits)
qed

lemma generate_tts_configured:
  assumes "model_name \<in> {''kokkoro'', ''chatterbox''}"
    and "get_model_endpoint settings model_name = Some ep" and "ep \<noteq> []"
  shows "generate_tts lib model_name request settings client =
     handled
       (case forward_request ep (dict request @ [(''model'', JStr model_name)]) client timeout_60 of
          Inl e \<Rightarrow> Inl e
        | Inr response \<Rightarrow> classify_response lib response)"
proof -
  from resolve_endpoint [OF assms(1)] obtain env_var where
    ev: "map_of MODEL_ENDPOINTS model_name = Some env_var"
      "getattr settings (lower env_var) = get_model_endpoint settings model_name"
    by blast
  show ?thesis
    using assms(2,3) by (simp add: generate_tts_def handled_def ev)
qed

lemma generate_tts_never_uncaught:
  "generate_tts lib model_name request settings client \<noteq> Inl (Uncaught e)"
  by (simp add: generate_tts_def split: option.splits sum.splits exn.splits)

text \<open>What the dispatcher returns once the backend has answered.\<close>

lemma generate_tts_answered:
  assumes "model_name \<in> {''kokkoro'', ''chatterbox''}"
    and "get_model_endpoint settings model_name = Some ep" and "ep \<noteq> []"
    and "post client (ep @ ''/generate'') (dict request @ [(''model'', JStr model_name)]) timeout_60
           = Inr response"
  shows "generate_tts lib model_name request settings client
           = handled (classify_response lib response)"
  using assms(4) by (simp add: generate_tts_configured [OF assms(1,2,3)] forward_request_def)

lemma generate_tts_transport_error:
  assumes "model_name \<in> {''kokkoro'', ''chatterbox''}"
    and "get_model_endpoint settings model_name = Some ep" and "ep \<noteq> []"
    and "post client (ep @ ''/generate'') (dict request @ [(''model'', JStr model_name)]) timeout_60
           = Inl e"
  shows "generate_tts lib model_name request settings client =
     (case e of
        TimeoutException m \<Rightarrow> Inl (HTTPException 504 (''Model endpoint timeout: '' @ ep))
      | RequestError m \<Rightarrow> Inl (HTTPException 503 (''Cannot reach model endpoint: '' @ ep))
      | OtherException m \<Rightarrow> Inl (HTTPException 500 (''Internal server error: '' @ m)))"
  using assms(4)
  by (simp add: generate_tts_configured [OF assms(1,2,3)] forward_request_def handled_def
      split: lib_error.splits)

lemma sample_init_off_schema:
  "sample_init (JArr [JInt 1]) = Inl ''argument after ** must be a mapping''"
  by (simp add: sample_init_def TTSResponse_schema_def refusing_def)

lemma classify_off_schema:
  "classify_response sample_library off_schema
     = Inl (Uncaught (OtherException ''argument after ** must be a mapping''))"
  by (simp add: classify_response_def off_schema_def sample_library_def sample_init_off_schema)

lemma kokkoro_only_endpoint:
  "get_model_endpoint kokkoro_only ''kokkoro'' = Some ''http://kokkoro:8001''"
  "get_model_endpoint kokkoro_only ''chatterbox'' = None"
  by (simp_all add: get_model_endpoint_simps kokkoro_only_def)

text \<open>
  Claim C1. The failures of a dispatch: a model name outside kokkoro and chatterbox gives
  an HTTPException 400; a registered model whose endpoint is None or empty gives 503;
  when the forwarding call raises a timeout the dispatch gives 504, when it raises
  another request error 503, and when it raises anything else 500; an exception raised
  while the response is read gives 500; and no exception other than an HTTPException
  leaves the dispatcher.
\<close>

theorem generate_tts_error_taxonomy:
  "(model_name \<notin> {''kokkoro'', ''chatterbox''} \<longrightarrow>
      (\<exists>detail. generate_tts lib model_name request settings client
                  = Inl (HTTPException 400 detail)))
   \<and> (model_name \<in> {''kokkoro'', ''chatterbox''}
        \<and> \<not> truthy (get_model_endpoint settings model_name) \<longrightarrow>
      (\<exists>detail. generate_tts lib model_name request settings client
                  = Inl (HTTPException 503 detail)))
   \<and> (model_name \<in> {''kokkoro'', ''chatterbox''}
        \<and> get_model_endpoint settings model_name = Some ep \<and> ep \<noteq> []
        \<and> post client (ep @ ''/generate'') (dict request @ [(''model'', JStr model_name)])
              timeout_60 = Inl (TimeoutException msg) \<longrightarrow>
      generate_tts lib model_name request settings client
        = Inl (HTTPException 504 (''Model endpoint timeout: '' @ ep)))
   \<and> (model_name \<in> {''kokkoro'', ''chatterbox''}
        \<and> get_model_endpoint settings model_name = Some ep \<and> ep \<noteq> []
        \<and> post client (ep @ ''/generate'') (dict request @ [(''model'', JStr model_name)])
              timeout_60 = Inl (RequestError msg) \<longrightarrow>
      generate_tts lib model_name request settings client
        = Inl (HTTPException 503 (''Cannot reach model endpoint: '' @ ep)))
   \<and> (model_name \<in> {''kokkoro'', ''chatterbox''}
        \<and> get_model_endpoint settings model_name = Some ep \<and> ep \<noteq> []
        \<and> post client (ep @ ''/generate'') (dict request @ [(''model'', JStr model_name)])
              timeout_60 = Inl (OtherException msg) \<longrightarrow>
      generate_tts lib model_name request settings client
        = Inl (HTTPException 500 (''Internal server error: '' @ msg)))
   \<and> (model_name \<in> {''kokkoro'', ''chatterbox''}
        \<and> get_model_endpoint settings model_name = Some ep \<and> ep \<noteq> []
        \<and> post client (ep @ ''/generate'') (dict request @ [(''model'', JStr model_name)])
              timeout_60 = Inr response
        \<and> classify_response lib response = Inl (Uncaught (OtherException msg)) \<longrightarrow>
      generate_tts lib model_name request settings client
        = Inl (HTTPException 500 (''Internal server error: '' @ msg)))
   \<and> (\<forall>e. generate_tts lib model_name request settings client \<noteq> Inl (Uncaught e))"
proof (intro conjI impI allI)
  assume "model_name \<notin> {''kokkoro'', ''chatterbox''}"
  then show "\<exists>detail. generate_tts lib model_name request settings client
                  = Inl (HTTPException 400 detail)"
    by (rule generate_tts_unknown)
next
  assume "model_name \<in> {''kokkoro'', ''chatterbox''}
        \<and> \<not> truthy (get_model_endpoint settings model_name)"
  then show "\<exists>detail. generate_tts lib model_name request settings client
                  = Inl (HTTPException 503 detail)"
    using generate_tts_unconfigured by blast
next
  assume "model_name \<in> {''kokkoro'', ''chatterbox''}
        \<and> get_model_endpoint settings model_name = Some ep \<and> ep \<noteq> []
        \<and> post client (ep @ ''/generate'') (dict request @ [(''model'', JStr model_name)])
              timeout_60 = Inl (TimeoutException msg)"
  then show "generate_tts lib model_name request settings client
        = Inl (HTTPException 504 (''Model endpoint timeout: '' @ ep))"
    by (simp add: generate_tts_transport_error [where e = "TimeoutException msg"])
next
  assume "model_name \<in> {''kokkoro'', ''chatterbox''}
        \<and> get_model_endpoint settings model_name = Some ep \<and> ep \<noteq> []
        \<and> post client (ep @ ''/generate'') (dict request @ [(''model'', JStr model_name)])
              timeout_60 = Inl (RequestError msg)"
  then show "generate_tts lib model_name request settings client
        = Inl (HTTPException 503 (''Cannot reach model endpoint: '' @ ep))"
    by (simp add: generate_tts_transport_error [where e = "RequestError msg"])
next
  assume "model_name \<in> {''kokkoro'', ''chatterbox''}
        \<and> get_model_endpoint settings model_name = Some ep \<and> ep \<noteq> []
        \<and> post client (ep @ ''/generate'') (dict request @ [(''model'', JStr model_name)])
              timeout_60 = Inl (OtherException msg)"
  then show "generate_tts lib model_name request settings client
        = Inl (HTTPException 500 (''Internal server error: '' @ msg))"
    by (simp add: generate_tts_transport_error [where e = "OtherException msg"])
next
  assume "model_name \<in> {''kokkoro'', ''chatterbox''}
        \<and> get_model_endpoint settings model_name = Some ep \<and> ep \<noteq> []
        \<and> post client (ep @ ''/generate'') (dict request @ [(''model'', JStr model_name)])
              timeout_60 = Inr response
        \<and> classify_response lib response = Inl (Uncaught (OtherException msg))"
  then show "generate_tts lib model_name request settings client
        = Inl (HTTPException 500 (''Internal server error: '' @ msg))"
    by (simp add: generate_tts_answered [where response = response] handled_def)
next
  fix e
  show "generate_tts lib model_name request settings client \<noteq> Inl (Uncaught e)"
    by (rule generate_tts_never_uncaught)
qed

theorem generate_tts_error_taxonomy_witness:
  "(\<exists>detail. generate_tts sample_library ''unknownmodel'' hello_request kokkoro_only
       (failing_client (TimeoutException ''timed out'')) = Inl (HTTPException 400 detail))
   \<and> (\<exists>detail. generate_tts sample_library ''chatterbox'' hello_request kokkoro_only
       (failing_client (TimeoutException ''timed out'')) = Inl (HTTPException 503 detail))
   \<and> generate_tts sample_library ''kokkoro'' hello_request kokkoro_only
       (failing_client (TimeoutException ''timed out''))
       = Inl (HTTPException 504 ''Model endpoint timeout: http://kokkoro:8001'')
   \<and> generate_tts sample_library ''kokkoro'' hello_request kokkoro_only
       (failing_client (RequestError ''connection refused''))
       = Inl (HTTPException 503 ''Cannot reach model endpoint: http://kokkoro:8001'')
   \<and> generate_tts sample_library ''kokkoro'' hello_request kokkoro_only
       (failing_client (OtherException ''client has been closed''))
       = Inl (HTTPException 500 ''Internal server error: client has been closed'')
   \<and> generate_tts sample_library ''kokkoro'' hello_request kokkoro_only
       (answering_client off_schema not_found_stream)
       = Inl (HTTPException 500 ''Internal server error: argument after ** must be a mapping'')"
  using
    generate_tts_error_taxonomy [of "''kokkoro''" sample_library hello_request kokkoro_only
      "answering_client off_schema not_found_stream" "''http://kokkoro:8001''"
      "''argument after ** must be a mapping''" off_schema]
    generate_tts_error_taxonomy [of "''unknownmodel''" sample_library hello_request kokkoro_only
      "failing_client (TimeoutException ''timed out'')"]
    generate_tts_error_taxonomy [of "''chatterbox''" sample_library hello_request kokkoro_only
      "failing_client (TimeoutException ''timed out'')"]
    generate_tts_error_taxonomy [of "''kokkoro''" sample_library hello_request kokkoro_only
      "failing_client (TimeoutException ''timed out'')" "''http://kokkoro:8001''" "''timed out''"]
    generate_tts_error_taxonomy [of "''kokkoro''" sample_library hello_request kokkoro_only
      "failing_client (RequestError ''connection refused'')" "''http://kokkoro:8001''"
      "''connection refused''"]
    generate_tts_error_taxonomy [of "''kokkoro''" sample_library hello_request kokkoro_only
      "failing_client (OtherException ''client has been closed'')" "''http://kokkoro:8001''"
      "''client has been closed''"]
  by (auto simp add: kokkoro_only_endpoint failing_client_def answering_client_def truthy_def
      classify_off_schema)

lemmas validator_defs =
  TTSResponse_schema_def TTSResponse_fields_def required_def optional_def bounded_def
  bool_validator_def str_validator_def int_validator_def float_validator_def
  enum_member_validator_def list_str_validator_def

lemma sample_init_payload: "sample_init sample_payload = Inr sample_response"
  by (simp add: sample_init_def sample_payload_def sample_response_def validator_defs)

lemma sample_library_payload: "TTSResponse_init sample_library sample_payload = Inr sample_response"
  by (simp add: sample_library_def sample_init_payload)

lemma answering_client_post: "post (answering_client r s) url body t = Inr r"
  by (simp add: answering_client_def)

lemma answering_client_stream: "stream (answering_client r s) url body t = Inr s"
  by (simp add: answering_client_def)

lemma sample_text_not_empty: "sample_text \<noteq> []"
  by (simp add: sample_text_def)

lemma not_found_stream_status: "stream_status_code not_found_stream = 404"
  by (simp add: not_found_stream_def)

lemma generate_tts_sample_200:
  "generate_tts sample_library ''kokkoro'' hello_request kokkoro_only
     (answering_client (answer 200) not_found_stream) = Inr sample_response"
proof -
  have "generate_tts sample_library ''kokkoro'' hello_request kokkoro_only
       (answering_client (answer 200) not_found_stream)
       = handled (classify_response sample_library (answer 200))"
    by (rule generate_tts_answered [where ep = "''http://kokkoro:8001''"])
       (simp_all add: kokkoro_only_endpoint answering_client_post)
  also have "\<dots> = Inr sample_response"
    by (simp add: classify_response_def handled_def answer_def sample_library_payload)
  finally show ?thesis .
qed

section \<open>What the schema keeps of a payload\<close>

lemma enum_member_value:
  "enum_member_validator (JStr s) = Some f \<Longrightarrow> AudioFormat_value f = s"
  by (auto simp add: enum_member_validator_def split: if_splits)

lemma those_str_items:
  "list_all is_str items \<Longrightarrow>
   those (map (\<lambda>item. case item of JNull \<Rightarrow> None | _ \<Rightarrow> str_validator conv item) items) = Some ws
   \<Longrightarrow> map JStr ws = items"
proof (induction items arbitrary: ws)
  case Nil
  then show ?case by simp
next
  case (Cons x xs)
  then show ?case
    by (cases x) (auto simp add: is_str_def str_validator_def split: option.splits)
qed

lemma schema_fields:
  assumes "TTSResponse_schema conv (JObj members) = Inr r"
  shows "required (bool_validator conv) members ''success'' = Some (success r)"
    and "optional (str_validator conv) members ''audio_data'' = Some (audio_data r)"
    and "required enum_member_validator members ''audio_format'' = Some (audio_format r)"
    and "optional (\<lambda>v. bounded ge_zero (float_validator conv v)) members ''duration''
           = Some (duration r)"
    and "required (\<lambda>v. bounded (\<lambda>n. 8000 \<le> n \<and> n \<le> 48000) (int_validator conv v))
           members ''sample_rate'' = Some (sample_rate r)"
    and "required (str_validator conv) members ''model_used'' = Some (model_used r)"
    and "optional (str_validator conv) members ''voice_used'' = Some (voice_used r)"
    and "optional (str_validator conv) members ''language'' = Some (language r)"
    and "optional (\<lambda>v. bounded ge_zero (float_validator conv v)) members ''processing_time''
           = Some (processing_time r)"
    and "required (\<lambda>v. bounded (\<lambda>n. 1 \<le> n) (int_validator conv v)) members ''text_length''
           = Some (text_length r)"
    and "optional (str_validator conv) members ''error'' = Some (error r)"
    and "optional (list_str_validator conv) members ''warnings'' = Some (warnings r)"
proof -
  from assms have "TTSResponse_fields conv members = Some r"
    by (simp add: TTSResponse_schema_def split: if_splits option.splits)
  then show
    "required (bool_validator conv) members ''success'' = Some (success r)"
    "optional (str_validator conv) members ''audio_data'' = Some (audio_data r)"
    "required enum_member_validator members ''audio_format'' = Some (audio_format r)"
    "optional (\<lambda>v. bounded ge_zero (float_validator conv v)) members ''duration''
           = Some (duration r)"
    "required (\<lambda>v. bounded (\<lambda>n. 8000 \<le> n \<and> n \<le> 48000) (int_validator conv v))
           members ''sample_rate'' = Some (sample_rate r)"
    "required (str_validator conv) members ''model_used'' = Some (model_used r)"
    "optional (str_validator conv) members ''voice_used'' = Some (voice_used r)"
    "optional (str_validator conv) members ''language'' = Some (language r)"
    "optional (\<lambda>v. bounded ge_zero (float_validator conv v)) members ''processing_time''
           = Some (processing_time r)"
    "required (\<lambda>v. bounded (\<lambda>n. 1 \<le> n) (int_validator conv v)) members ''text_length''
           = Some (text_length r)"
    "optional (str_validator conv) members ''error'' = Some (error r)"
    "optional (list_str_validator conv) members ''warnings'' = Some (warnings r)"
    by (auto simp add: TTSResponse_fields_def bind_eq_Some_conv)
qed

lemma response_dict_keys:
  "map_of (response_dict r) ''success'' = Some (JBool (success r))"
  "map_of (response_dict r) ''audio_data'' = Some (opt_json JStr (audio_data r))"
  "map_of (response_dict r) ''audio_format'' = Some (JStr (AudioFormat_value (audio_format r)))"
  "map_of (response_dict r) ''duration'' = Some (opt_json JFloat (duration r))"
  "map_of (response_dict r) ''sample_rate'' = Some (JInt (sample_rate r))"
  "map_of (response_dict r) ''model_used'' = Some (JStr (model_used r))"
  "map_of (response_dict r) ''voice_used'' = Some (opt_json JStr (voice_used r))"
  "map_of (response_dict r) ''language'' = Some (opt_json JStr (language r))"
  "map_of (response_dict r) ''processing_time'' = Some (opt_json JFloat (processing_time r))"
  "map_of (response_dict r) ''text_length'' = Some (JInt (text_length r))"
  "map_of (response_dict r) ''error'' = Some (opt_json JStr (error r))"
  "map_of (response_dict r) ''warnings'' = Some (opt_json (\<lambda>ws. JArr (map JStr ws)) (warnings r))"
  by (simp_all add: response_dict_def)

lemma optional_null:
  "optional validator members key = Some x \<Longrightarrow> map_of members key = Some JNull \<Longrightarrow> x = None"
  by (simp add: optional_def)

lemma optional_str:
  "optional (str_validator conv) members key = Some x \<Longrightarrow> map_of members key = Some (JStr s)
     \<Longrightarrow> x = Some s"
  by (simp add: optional_def str_validator_def)

lemma optional_float:
  "optional (\<lambda>v. bounded ok (float_validator conv v)) members key = Some x
     \<Longrightarrow> map_of members key = Some (JFloat f) \<Longrightarrow> x = Some f"
  by (simp add: optional_def float_validator_def bounded_def split: if_splits)

lemma optional_list:
  assumes "optional (list_str_validator conv) members key = Some x"
    and "map_of members key = Some (JArr items)" and "list_all is_str items"
  shows "\<exists>ws. x = Some ws \<and> map JStr ws = items"
proof -
  from assms(1,2) obtain ws where ws: "list_str_validator conv (JArr items) = Some ws" "x = Some ws"
    by (cases "list_str_validator conv (JArr items)") (simp_all add: optional_def)
  from ws(1) have "those (map (\<lambda>item. case item of JNull \<Rightarrow> None
      | _ \<Rightarrow> str_validator conv item) items) = Some ws"
    by (simp add: list_str_validator_def)
  from those_str_items [OF assms(3) this] ws(2) show ?thesis by simp
qed

lemma required_bool:
  "required (bool_validator conv) members key = Some x \<Longrightarrow> map_of members key = Some (JBool b)
     \<Longrightarrow> x = b"
  by (simp add: required_def bool_validator_def)

lemma required_int:
  "required (\<lambda>v. bounded ok (int_validator conv v)) members key = Some x
     \<Longrightarrow> map_of members key = Some (JInt n) \<Longrightarrow> x = n"
  by (simp add: required_def int_validator_def bounded_def split: if_splits)

lemma required_str:
  "required (str_validator conv) members key = Some x \<Longrightarrow> map_of members key = Some (JStr s)
     \<Longrightarrow> x = s"
  by (simp add: required_def str_validator_def)

lemma required_enum:
  "required enum_member_validator members key = Some x \<Longrightarrow> map_of members key = Some (JStr s)
     \<Longrightarrow> AudioFormat_value x = s"
  by (simp add: required_def enum_member_value)

lemma schema_carries:
  assumes ok: "TTSResponse_schema conv (JObj members) = Inr r"
    and m: "map_of members key = Some v" and t: "declared_type key v"
  shows "map_of (response_dict r) key = Some v"
proof (cases v)
  case JNull
  with t have "key = ''audio_data'' \<or> key = ''duration'' \<or> key = ''voice_used''
      \<or> key = ''language'' \<or> key = ''processing_time'' \<or> key = ''error''
      \<or> key = ''warnings''"
    by (simp add: declared_type_def)
  then show ?thesis
  proof (elim disjE)
    assume k: "key = ''audio_data''"
    with m JNull have mm: "map_of members ''audio_data'' = Some JNull" by simp
    have "audio_data r = None" by (rule optional_null [OF schema_fields(2) [OF ok] mm])
    with JNull k show ?thesis by (simp add: response_dict_keys opt_json_def)
  next
    assume k: "key = ''duration''"
    with m JNull have mm: "map_of members ''duration'' = Some JNull" by simp
    have "duration r = None" by (rule optional_null [OF schema_fields(4) [OF ok] mm])
    with JNull k show ?thesis by (simp add: response_dict_keys opt_json_def)
  next
    assume k: "key = ''voice_used''"
    with m JNull have mm: "map_of members ''voice_used'' = Some JNull" by simp
    have "voice_used r = None" by (rule optional_null [OF schema_fields(7) [OF ok] mm])
    with JNull k show ?thesis by (simp add: response_dict_keys opt_json_def)
  next
    assume k: "key = ''language''"
    with m JNull have mm: "map_of members ''language'' = Some JNull" by simp
    have "language r = None" by (rule optional_null [OF schema_fields(8) [OF ok] mm])
    with JNull k show ?thesis by (simp add: response_dict_keys opt_json_def)
  next
    assume k: "key = ''processing_time''"
    with m JNull have mm: "map_of members ''processing_time'' = Some JNull" by simp
    have "processing_time r = None" by (rule optional_null [OF schema_fields(9) [OF ok] mm])
    with JNull k show ?thesis by (simp add: response_dict_keys opt_json_def)
  next
    assume k: "key = ''error''"
    with m JNull have mm: "map_of members ''error'' = Some JNull" by simp
    have "error r = None" by (rule optional_null [OF schema_fields(11) [OF ok] mm])
    with JNull k show ?thesis by (simp add: response_dict_keys opt_json_def)
  next
    assume k: "key = ''warnings''"
    with m JNull have mm: "map_of members ''warnings'' = Some JNull" by simp
    have "warnings r = None" by (rule optional_null [OF schema_fields(12) [OF ok] mm])
    with JNull k show ?thesis by (simp add: response_dict_keys opt_json_def)
  qed
next
  case (JBool b)
  with t have k: "key = ''success''" by (simp add: declared_type_def)
  with m JBool have mm: "map_of members ''success'' = Some (JBool b)" by simp
  have "success r = b" by (rule required_bool [OF schema_fields(1) [OF ok] mm])
  with JBool k show ?thesis by (simp add: response_dict_keys)
next
  case (JInt n)
  with t have "key = ''sample_rate'' \<or> key = ''text_length''" by (simp add: declared_type_def)
  then show ?thesis
  proof (elim disjE)
    assume k: "key = ''sample_rate''"
    with m JInt have mm: "map_of members ''sample_rate'' = Some (JInt n)" by simp
    have "sample_rate r = n" by (rule required_int [OF schema_fields(5) [OF ok] mm])
    with JInt k show ?thesis by (simp add: response_dict_keys)
  next
    assume k: "key = ''text_length''"
    with m JInt have mm: "map_of members ''text_length'' = Some (JInt n)" by simp
    have "text_length r = n" by (rule required_int [OF schema_fields(10) [OF ok] mm])
    with JInt k show ?thesis by (simp add: response_dict_keys)
  qed
next
  case (JFloat f)
  with t have "key = ''duration'' \<or> key = ''processing_time''" by (simp add: declared_type_def)
  then show ?thesis
  proof (elim disjE)
    assume k: "key = ''duration''"
    with m JFloat have mm: "map_of members ''duration'' = Some (JFloat f)" by simp
    have "duration r = Some f" by (rule optional_float [OF schema_fields(4) [OF ok] mm])
    with JFloat k show ?thesis by (simp add: response_dict_keys opt_json_def)
  next
    assume k: "key = ''processing_time''"
    with m JFloat have mm: "map_of members ''processing_time'' = Some (JFloat f)" by simp
    have "processing_time r = Some f" by (rule optional_float [OF schema_fields(9) [OF ok] mm])
    with JFloat k show ?thesis by (simp add: response_dict_keys opt_json_def)
  qed
next
  case (JStr s)
  with t have "key = ''audio_data'' \<or> key = ''audio_format'' \<or> key = ''model_used''
      \<or> key = ''voice_used'' \<or> key = ''language'' \<or> key = ''error''"
    by (simp add: declared_type_def)
  then show ?thesis
  proof (elim disjE)
    assume k: "key = ''audio_data''"
    with m JStr have mm: "map_of members ''audio_data'' = Some (JStr s)" by simp
    have "audio_data r = Some s" by (rule optional_str [OF schema_fields(2) [OF ok] mm])
    with JStr k show ?thesis by (simp add: response_dict_keys opt_json_def)
  next
    assume k: "key = ''audio_format''"
    with m JStr have mm: "map_of members ''audio_format'' = Some (JStr s)" by simp
    have "AudioFormat_value (audio_format r) = s"
      by (rule required_enum [OF schema_fields(3) [OF ok] mm])
    with JStr k show ?thesis by (simp add: response_dict_keys)
  next
    assume k: "key = ''model_used''"
    with m JStr have mm: "map_of members ''model_used'' = Some (JStr s)" by simp
    have "model_used r = s" by (rule required_str [OF schema_fields(6) [OF ok] mm])
    with JStr k show ?thesis by (simp add: response_dict_keys)
  next
    assume k: "key = ''voice_used''"
    with m JStr have mm: "map_of members ''voice_used'' = Some (JStr s)" by simp
    have "voice_used r = Some s" by (rule optional_str [OF schema_fields(7) [OF ok] mm])
    with JStr k show ?thesis by (simp add: response_dict_keys opt_json_def)
  next
    assume k: "key = ''language''"
    with m JStr have mm: "map_of members ''language'' = Some (JStr s)" by simp
    have "language r = Some s" by (rule optional_str [OF schema_fields(8) [OF ok] mm])
    with JStr k show ?thesis by (simp add: response_dict_keys opt_json_def)
  next
    assume k: "key = ''error''"
    with m JStr have mm: "map_of members ''error'' = Some (JStr s)" by simp
    have "error r = Some s" by (rule optional_str [OF schema_fields(11) [OF ok] mm])
    with JStr k show ?thesis by (simp add: response_dict_keys opt_json_def)
  qed
next
  case (JArr items)
  with t have k: "key = ''warnings''" and all: "list_all is_str items"
    by (simp_all add: declared_type_def)
  with m JArr have mm: "map_of members ''warnings'' = Some (JArr items)" by simp
  from optional_list [OF schema_fields(12) [OF ok] mm all]
  obtain ws where "warnings r = Some ws" "map JStr ws = items"
    by (elim exE conjE) (rule that)
  with JArr k show ?thesis by (simp add: response_dict_keys opt_json_def)
next
  case (JObj ms)
  with t show ?thesis by (simp add: declared_type_def)
qed


lemma sample_library_schema: "TTSResponse_init sample_library = TTSResponse_schema refusing"
  by (simp add: sample_library_def sample_init_def)

lemma sample_schema_payload:
  "TTSResponse_schema refusing (JObj (members_of sample_payload)) = Inr sample_response"
  using sample_init_payload by (simp add: sample_init_def sample_payload_def members_of_def)

lemma sample_init_bitrate: "sample_init bitrate_payload = Inr sample_response"
  by (simp add: sample_init_def bitrate_payload_def sample_response_def validator_defs)

lemma sample_init_boolean:
  "sample_init boolean_payload = Inr (sample_response\<lparr>text_length := 1\<rparr>)"
  by (simp add: sample_init_def boolean_payload_def sample_response_def validator_defs)

lemma generate_tts_sample_answer:
  "generate_tts sample_library ''kokkoro'' hello_request kokkoro_only
     (answering_client response not_found_stream)
     = handled (classify_response sample_library response)"
  by (rule generate_tts_answered [where ep = "''http://kokkoro:8001''"])
     (simp_all add: kokkoro_only_endpoint answering_client_post)

lemma str_nat_204: "str_nat 204 = ''204''"
  by code_simp

section \<open>A success of the backend\<close>

text \<open>
  Claim C4 as stated fails three times. The backend that answers 201 with a payload the
  schema accepts gets an HTTPException 201 from the dispatcher, not the response. A
  payload with a member that is no field of the schema (a bitrate) is answered with a
  response that has no such member. A payload whose text length is the boolean true is
  answered with the text length 1.
\<close>

theorem generate_tts_success_counterexample:
  "status_code (answer 201) = 201
   \<and> resp_json (answer 201) = Inr sample_payload
   \<and> TTSResponse_init sample_library sample_payload = Inr sample_response
   \<and> generate_tts sample_library ''kokkoro'' hello_request kokkoro_only
       (answering_client (answer 201) not_found_stream)
       = Inl (HTTPException 201 (''Model endpoint error: '' @ sample_text))
   \<and> status_code bitrate_answer = 200
   \<and> resp_json bitrate_answer = Inr bitrate_payload
   \<and> map_of (members_of bitrate_payload) ''bitrate'' = Some (JInt 128)
   \<and> generate_tts sample_library ''kokkoro'' hello_request kokkoro_only
       (answering_client bitrate_answer not_found_stream) = Inr sample_response
   \<and> map_of (response_dict sample_response) ''bitrate'' = None
   \<and> status_code boolean_answer = 200
   \<and> resp_json boolean_answer = Inr boolean_payload
   \<and> map_of (members_of boolean_payload) ''text_length'' = Some (JBool True)
   \<and> generate_tts sample_library ''kokkoro'' hello_request kokkoro_only
       (answering_client boolean_answer not_found_stream)
       = Inr (sample_response\<lparr>text_length := 1\<rparr>)
   \<and> map_of (response_dict (sample_response\<lparr>text_length := 1\<rparr>)) ''text_length''
       = Some (JInt 1)"
proof -
  have a: "handled (classify_response sample_library (answer 201))
      = Inl (HTTPException 201 (''Model endpoint error: '' @ sample_text))"
    by (simp add: classify_response_def handled_def answer_def sample_text_not_empty)
  have b: "handled (classify_response sample_library bitrate_answer) = Inr sample_response"
    by (simp add: classify_response_def handled_def bitrate_answer_def sample_library_def
        sample_init_bitrate)
  have c: "handled (classify_response sample_library boolean_answer)
      = Inr (sample_response\<lparr>text_length := 1\<rparr>)"
    by (simp add: classify_response_def handled_def boolean_answer_def sample_library_def
        sample_init_boolean)
  have d: "map_of (members_of bitrate_payload) ''bitrate'' = Some (JInt 128)"
    "map_of (members_of boolean_payload) ''text_length'' = Some (JBool True)"
    by (simp_all add: members_of_def bitrate_payload_def boolean_payload_def)
  have e: "map_of (response_dict sample_response) ''bitrate'' = None"
    "map_of (response_dict (sample_response\<lparr>text_length := 1\<rparr>)) ''text_length'' = Some (JInt 1)"
    by (simp_all add: response_dict_def)
  show ?thesis
    by (simp add: generate_tts_sample_answer a b c d e sample_library_payload)
       (simp add: answer_def bitrate_answer_def boolean_answer_def)
qed

text \<open>
  Claim C4, amended. When the backend answers with status 200 and a body that decodes to
  a JSON object the \<open>TTSResponse\<close> schema accepts, the dispatch returns the validated
  response, and that response carries unchanged every member of the payload that names
  a field of the schema and has the declared type of that field. A 2xx status other than
  200 is no success: the dispatch raises an HTTPException with the backend's status,
  whose detail is "Model endpoint error: " followed by the body text, or by "HTTP" and
  the status when the body is empty.
\<close>

theorem generate_tts_success_200:
  assumes "model_name \<in> {''kokkoro'', ''chatterbox''}"
    and "get_model_endpoint settings model_name = Some ep" and "ep \<noteq> []"
    and "post client (ep @ ''/generate'') (dict request @ [(''model'', JStr model_name)]) timeout_60
           = Inr response"
    and "TTSResponse_init lib = TTSResponse_schema conv"
  shows "(status_code response = 200 \<and> resp_json response = Inr (JObj members)
            \<and> TTSResponse_schema conv (JObj members) = Inr r \<longrightarrow>
          generate_tts lib model_name request settings client = Inr r
          \<and> (\<forall>key v. map_of members key = Some v \<and> declared_type key v \<longrightarrow>
                map_of (response_dict r) key = Some v))
       \<and> (200 < status_code response \<and> status_code response \<le> 299 \<longrightarrow>
          generate_tts lib model_name request settings client
            = Inl (HTTPException (status_code response)
                (''Model endpoint error: ''
                   @ (if resp_text response \<noteq> [] then resp_text response
                      else ''HTTP '' @ str_nat (status_code response)))))"
proof (intro conjI impI allI)
  assume h: "status_code response = 200 \<and> resp_json response = Inr (JObj members)
            \<and> TTSResponse_schema conv (JObj members) = Inr r"
  then show "generate_tts lib model_name request settings client = Inr r"
    by (simp add: generate_tts_answered [OF assms(1-4)] classify_response_def handled_def
        assms(5))
  fix key v
  assume "map_of members key = Some v \<and> declared_type key v"
  with h show "map_of (response_dict r) key = Some v"
    using schema_carries [of conv members r key v] by simp
next
  assume "200 < status_code response \<and> status_code response \<le> 299"
  then show "generate_tts lib model_name request settings client
            = Inl (HTTPException (status_code response)
                (''Model endpoint error: ''
                   @ (if resp_text response \<noteq> [] then resp_text response
                      else ''HTTP '' @ str_nat (status_code response))))"
    by (simp add: generate_tts_answered [OF assms(1-4)] classify_response_def handled_def)
qed

theorem generate_tts_success_200_witness:
  "generate_tts sample_library ''kokkoro'' hello_request kokkoro_only
     (answering_client (answer 200) not_found_stream) = Inr sample_response
   \<and> map_of (response_dict sample_response) ''audio_data'' = Some (JStr ''UklGRg=='')
   \<and> map_of (response_dict sample_response) ''sample_rate'' = Some (JInt 22050)
   \<and> generate_tts sample_library ''kokkoro'' hello_request kokkoro_only
     (answering_client empty_204 not_found_stream)
       = Inl (HTTPException 204 ''Model endpoint error: HTTP 204'')"
proof -
  have m: "resp_json (answer 200) = Inr (JObj (members_of sample_payload))"
    "status_code (answer 200) = 200"
    by (simp_all add: answer_def sample_payload_def members_of_def)
  have k: "map_of (members_of sample_payload) ''audio_data'' = Some (JStr ''UklGRg=='')"
    "declared_type ''audio_data'' (JStr ''UklGRg=='')"
    "map_of (members_of sample_payload) ''sample_rate'' = Some (JInt 22050)"
    "declared_type ''sample_rate'' (JInt 22050)"
    by (simp_all add: sample_payload_def members_of_def declared_type_def)
  from
    generate_tts_success_200 [of "''kokkoro''" kokkoro_only "''http://kokkoro:8001''"
      "answering_client (answer 200) not_found_stream" hello_request "answer 200"
      sample_library refusing "members_of sample_payload" sample_response]
  have "generate_tts sample_library ''kokkoro'' hello_request kokkoro_only
     (answering_client (answer 200) not_found_stream) = Inr sample_response
     \<and> (\<forall>key v. map_of (members_of sample_payload) key = Some v \<and> declared_type key v \<longrightarrow>
                map_of (response_dict sample_response) key = Some v)"
    by (simp add: kokkoro_only_endpoint answering_client_post sample_library_schema m
        sample_schema_payload)
  moreover from
    generate_tts_success_200 [of "''kokkoro''" kokkoro_only "''http://kokkoro:8001''"
      "answering_client empty_204 not_found_stream" hello_request empty_204
      sample_library refusing]
  have "generate_tts sample_library ''kokkoro'' hello_request kokkoro_only
     (answering_client empty_204 not_found_stream)
       = Inl (HTTPException 204 ''Model endpoint error: HTTP 204'')"
    by (simp add: kokkoro_only_endpoint answering_client_post sample_library_schema
        empty_204_def str_nat_204)
  ultimately show ?thesis using k by simp
qed

text \<open>
  Claim C10. When the backend answers with status 200 and a body that does not decode as
  JSON, or decodes to a value the \<open>TTSResponse\<close> schema refuses, the dispatch raises
  an HTTPException 500 that carries the text of the decoder's or the validator's error.
\<close>

theorem generate_tts_200_unparseable:
  assumes "model_name \<in> {''kokkoro'', ''chatterbox''}"
    and "get_model_endpoint settings model_name = Some ep" and "ep \<noteq> []"
    and "post client (ep @ ''/generate'') (dict request @ [(''model'', JStr model_name)]) timeout_60
           = Inr response"
    and "status_code response = 200"
    and "resp_json response = Inl msg
         \<or> (\<exists>payload. resp_json response = Inr payload \<and> TTSResponse_init lib payload = Inl msg)"
  shows "generate_tts lib model_name request settings client
           = Inl (HTTPException 500 (''Internal server error: '' @ msg))"
  using assms(5,6)
  by (auto simp add: generate_tts_answered [OF assms(1-4)] classify_response_def handled_def)


theorem generate_tts_200_unparseable_witness:
  "generate_tts sample_library ''kokkoro'' hello_request kokkoro_only
     (answering_client garbled not_found_stream)
     = Inl (HTTPException 500 ''Internal server error: Expecting value'')
   \<and> generate_tts sample_library ''kokkoro'' hello_request kokkoro_only
     (answering_client off_schema not_found_stream)
     = Inl (HTTPException 500 ''Internal server error: argument after ** must be a mapping'')"
  using
    generate_tts_200_unparseable [of "''kokkoro''" kokkoro_only "''http://kokkoro:8001''"
      "answering_client garbled not_found_stream" hello_request garbled "''Expecting value''"
      sample_library]
    generate_tts_200_unparseable [of "''kokkoro''" kokkoro_only "''http://kokkoro:8001''"
      "answering_client off_schema not_found_stream" hello_request off_schema
      "''argument after ** must be a mapping''" sample_library]
  by (simp add: kokkoro_only_endpoint answering_client_post garbled_def off_schema_def
      sample_library_def sample_init_off_schema)

section \<open>A validation error of the backend\<close>

text \<open>
  Claim C5 as stated fails twice: a 422 whose body does not decode as JSON gives a 500,
  and a 422 with the detail "text too long" gives a message that is not that detail (it
  carries a prefix).
\<close>

theorem generate_tts_422_counterexample:
  "generate_tts sample_library ''kokkoro'' hello_request kokkoro_only
     (answering_client (rejected (Inl ''Expecting value'')) not_found_stream)
     = Inl (HTTPException 500 ''Internal server error: Expecting value'')
   \<and> generate_tts sample_library ''kokkoro'' hello_request kokkoro_only
     (answering_client (rejected (Inr (JObj [(''detail'', JStr ''text too long'')]))) not_found_stream)
     = Inl (HTTPException 422 ''Model validation error: text too long'')
   \<and> ''Model validation error: text too long'' \<noteq> ''text too long''"
proof -
  have a: "generate_tts sample_library ''kokkoro'' hello_request kokkoro_only
       (answering_client (rejected j) not_found_stream)
       = handled (classify_response sample_library (rejected j))" for j
    by (rule generate_tts_answered [where ep = "''http://kokkoro:8001''"])
       (simp_all add: kokkoro_only_endpoint answering_client_post)
  show ?thesis
    unfolding a
    by (simp add: classify_response_def handled_def rejected_def format_value_def)
qed

text \<open>
  Claim C5, amended. When the backend answers with status 422 and a body that decodes to
  a JSON object, the dispatch raises an HTTPException 422 whose detail is
  "Model validation error: " followed by the backend's detail: the detail itself when it
  is a string, its \<^verbatim>\<open>str()\<close> when it is another JSON value, and "Validation error"
  when the object has no detail.
\<close>

theorem generate_tts_422_detail:
  assumes "model_name \<in> {''kokkoro'', ''chatterbox''}"
    and "get_model_endpoint settings model_name = Some ep" and "ep \<noteq> []"
    and "post client (ep @ ''/generate'') (dict request @ [(''model'', JStr model_name)]) timeout_60
           = Inr response"
    and "status_code response = 422"
    and "resp_json response = Inr (JObj members)"
  shows "generate_tts lib model_name request settings client =
           Inl (HTTPException 422
             (''Model validation error: ''
                @ (case map_of members ''detail'' of
                     None \<Rightarrow> ''Validation error''
                   | Some (JStr s) \<Rightarrow> s
                   | Some d \<Rightarrow> str_value lib d)))"
  using assms(5,6)
  by (simp add: generate_tts_answered [OF assms(1-4)] classify_response_def handled_def
      format_value_def split: option.splits json_value.splits)

theorem generate_tts_422_detail_witness:
  "generate_tts sample_library ''kokkoro'' hello_request kokkoro_only
     (answering_client (rejected (Inr (JObj [(''detail'', JStr ''text too long'')]))) not_found_stream)
     = Inl (HTTPException 422 ''Model validation error: text too long'')"
  using
    generate_tts_422_detail [of "''kokkoro''" kokkoro_only "''http://kokkoro:8001''"
      "answering_client (rejected (Inr (JObj [(''detail'', JStr ''text too long'')]))) not_found_stream"
      hello_request "rejected (Inr (JObj [(''detail'', JStr ''text too long'')]))"
      "[(''detail'', JStr ''text too long'')]" sample_library]
  by (simp add: kokkoro_only_endpoint answering_client_post rejected_def)

section \<open>The streaming fallback\<close>

text \<open>
  Claim C2. When the streaming path of the backend answers 404, the negotiator calls the
  dispatcher with the model name, the request, the settings and the client it was given,
  and what the dispatcher returns or raises is what the negotiator returns or raises.
\<close>

theorem generate_tts_stream_fallback:
  assumes "model_name \<in> {''kokkoro'', ''chatterbox''}"
    and "get_model_endpoint settings model_name = Some ep" and "ep \<noteq> []"
    and "stream client (ep @ ''/generate/stream'') (dict request @ [(''model'', JStr model_name)])
           timeout_120 = Inr response"
    and "stream_status_code response = 404"
  shows "generate_tts_stream lib model_name request settings client
           = fallback (generate_tts lib model_name request settings client)"
proof -
  from resolve_endpoint [OF assms(1)] obtain env_var where
    ev: "map_of MODEL_ENDPOINTS model_name = Some env_var"
      "getattr settings (lower env_var) = get_model_endpoint settings model_name"
    by blast
  show ?thesis
    using assms(2-5) by (simp add: generate_tts_stream_def ev)
qed

theorem generate_tts_stream_fallback_witness:
  "generate_tts_stream sample_library ''kokkoro'' hello_request kokkoro_only
     (answering_client (answer 200) not_found_stream) = Inr (Dispatched sample_response)"
  using
    generate_tts_stream_fallback [of "''kokkoro''" kokkoro_only "''http://kokkoro:8001''"
      "answering_client (answer 200) not_found_stream" hello_request not_found_stream sample_library]
  by (simp add: kokkoro_only_endpoint answering_client_stream not_found_stream_status
      generate_tts_sample_200 fallback_def)

section \<open>The health prober and the aggregator\<close>

lemma check_model_health_eq:
  "check_model_health client ep timeout st = (Inr (is_up client ep timeout), logged client ep st)"
  by (simp add: check_model_health_def is_up_def logged_def Let_def split: sum.splits)

lemma get_models_status_eq:
  "get_models_status client settings st =
     (Inr [(''kokkoro'', fst (entry_status client (kokkoro_endpoint settings) st)),
           (''chatterbox'',
              fst (entry_status client (chatterbox_endpoint settings)
                     (snd (entry_status client (kokkoro_endpoint settings) st))))],
      snd (entry_status client (chatterbox_endpoint settings)
             (snd (entry_status client (kokkoro_endpoint settings) st))))"
  by (simp add: get_models_status_def entry_status_def check_model_health_eq
      split: option.splits)

lemma entry_status_unconfigured:
  "\<not> truthy e \<Longrightarrow> entry_status client e st = (False, st)"
  by (simp add: entry_status_def truthy_def split: option.splits)

lemma entry_status_healthy_configured:
  "fst (entry_status client e st) \<Longrightarrow> truthy e"
  by (simp add: entry_status_def truthy_def split: option.splits if_splits)

text \<open>The endpoints an entry adds to the probes of a run.\<close>

lemma entry_status_probes:
  "probes (snd (entry_status client e st)) =
     probes st @
       (case e of None \<Rightarrow> []
        | Some ep \<Rightarrow>
            if ep = [] then []
            else [\<lparr>probe_url = ep @ ''/health'', started = waited st,
                    finished = waited st + get_ticks client (ep @ ''/health'')\<rparr>])"
  by (simp add: entry_status_def logged_def split: option.splits)

lemma entry_status_waited:
  "waited (snd (entry_status client e st)) =
     waited st +
       (case e of None \<Rightarrow> 0
        | Some ep \<Rightarrow> if ep = [] then 0 else get_ticks client (ep @ ''/health''))"
  by (simp add: entry_status_def logged_def split: option.splits)

lemma configured_endpoints_eq:
  "configured_endpoints settings =
     (case kokkoro_endpoint settings of None \<Rightarrow> [] | Some ep \<Rightarrow> if ep = [] then [] else [ep])
     @ (case chatterbox_endpoint settings of None \<Rightarrow> [] | Some ep \<Rightarrow> if ep = [] then [] else [ep])"
  by (simp add: configured_endpoints_def get_model_endpoint_simps)

text \<open>
  Claim C6. The health probe never raises: it returns a boolean for every endpoint,
  timeout and behaviour of the network. It returns false when the GET raises (a timeout,
  a connection error or anything else) and when the status is not 2xx.
\<close>

theorem check_model_health_total:
  "(\<exists>b. fst (check_model_health client ep timeout st) = Inr b)
   \<and> (get client (ep @ ''/health'') timeout = Inl e \<longrightarrow>
        fst (check_model_health client ep timeout st) = Inr False)
   \<and> (get client (ep @ ''/health'') timeout = Inr response
        \<and> \<not> (200 \<le> status_code response \<and> status_code response \<le> 299) \<longrightarrow>
        fst (check_model_health client ep timeout st) = Inr False)"
  by (auto simp add: check_model_health_def Let_def split: sum.splits)

theorem check_model_health_total_witness:
  "fst (check_model_health (failing_client (TimeoutException ''timed out''))
          ''http://kokkoro:8001'' timeout_5 fresh) = Inr False
   \<and> fst (check_model_health (failing_client (RequestError ''connection refused''))
          ''http://kokkoro:8001'' timeout_5 fresh) = Inr False
   \<and> fst (check_model_health (answering_client (answer 503) not_found_stream)
          ''http://kokkoro:8001'' timeout_5 fresh) = Inr False"
  using
    check_model_health_total [of "failing_client (TimeoutException ''timed out'')"
      "''http://kokkoro:8001''" timeout_5 fresh "TimeoutException ''timed out''"]
    check_model_health_total [of "failing_client (RequestError ''connection refused'')"
      "''http://kokkoro:8001''" timeout_5 fresh "RequestError ''connection refused''"]
    check_model_health_total [of "answering_client (answer 503) not_found_stream"
      "''http://kokkoro:8001''" timeout_5 fresh _ "answer 503"]
  by (simp add: failing_client_def answering_client_def answer_def)

lemma overall_status_iff:
  "overall_status ms = (if \<exists>name. (name, True) \<in> set ms then ''healthy'' else ''degraded'')"
  by (force simp add: overall_status_def list_ex_iff)

lemma health_check_returns:
  "\<exists>r. fst (health_check sys client settings st) = Inr r
        \<and> status r = overall_status (models r)
        \<and> map fst (models r) = [''kokkoro'', ''chatterbox'']"
  by (simp add: health_check_def get_models_status_eq Let_def)

text \<open>
  Claim C7. The status computed from the per-backend results is "healthy" exactly when
  at least one backend is healthy and "degraded" otherwise, for a population of any
  size; the aggregate health check always answers, over the two registered backends,
  and the status of its answer is "healthy" exactly when one of the results it reports
  is healthy, "degraded" otherwise.
\<close>

theorem overall_status_healthy_iff:
  "(overall_status ms = ''healthy'' \<longleftrightarrow> (\<exists>name. (name, True) \<in> set ms))
   \<and> overall_status ms
       = (if \<exists>name. (name, True) \<in> set ms then ''healthy'' else ''degraded'')
   \<and> (\<exists>r. fst (health_check sys client settings st) = Inr r
            \<and> map fst (models r) = [''kokkoro'', ''chatterbox'']
            \<and> (status r = ''healthy'' \<longleftrightarrow> (\<exists>name. (name, True) \<in> set (models r)))
            \<and> status r
                = (if \<exists>name. (name, True) \<in> set (models r) then ''healthy''
                   else ''degraded''))"
proof (intro conjI)
  show "overall_status ms = ''healthy'' \<longleftrightarrow> (\<exists>name. (name, True) \<in> set ms)"
    by (simp add: overall_status_iff)
  show "overall_status ms
       = (if \<exists>name. (name, True) \<in> set ms then ''healthy'' else ''degraded'')"
    by (rule overall_status_iff)
  from health_check_returns [of sys client settings st] obtain r where
    r1: "fst (health_check sys client settings st) = Inr r"
    and r2: "status r = overall_status (models r)"
    and r3: "map fst (models r) = [''kokkoro'', ''chatterbox'']"
    by (elim exE conjE) (rule that)
  have "status r = ''healthy'' \<longleftrightarrow> (\<exists>name. (name, True) \<in> set (models r))"
    unfolding r2 by (simp add: overall_status_iff)
  moreover have "status r
      = (if \<exists>name. (name, True) \<in> set (models r) then ''healthy'' else ''degraded'')"
    unfolding r2 by (rule overall_status_iff)
  ultimately show "\<exists>r. fst (health_check sys client settings st) = Inr r
            \<and> map fst (models r) = [''kokkoro'', ''chatterbox'']
            \<and> (status r = ''healthy'' \<longleftrightarrow> (\<exists>name. (name, True) \<in> set (models r)))
            \<and> status r
                = (if \<exists>name. (name, True) \<in> set (models r) then ''healthy''
                   else ''degraded'')"
    using r1 r3 by (intro exI [of _ r] conjI)
qed

theorem overall_status_healthy_iff_witness:
  "overall_status [] = ''degraded''
   \<and> overall_status [(''kokkoro'', True)] = ''healthy''
   \<and> overall_status [(''kokkoro'', False)] = ''degraded''
   \<and> overall_status [(''a'', False), (''b'', True), (''c'', False)] = ''healthy''
   \<and> overall_status [(''a'', False), (''b'', False), (''c'', False)] = ''degraded''"
  using
    overall_status_healthy_iff [of "[]"]
    overall_status_healthy_iff [of "[(''kokkoro'', True)]"]
    overall_status_healthy_iff [of "[(''kokkoro'', False)]"]
    overall_status_healthy_iff [of "[(''a'', False), (''b'', True), (''c'', False)]"]
    overall_status_healthy_iff [of "[(''a'', False), (''b'', False), (''c'', False)]"]
  by simp

lemma get_models_status_records:
  "\<exists>ms. fst (get_models_status client settings st) = Inr ms
         \<and> map fst ms = [''kokkoro'', ''chatterbox'']
         \<and> (\<forall>(name, is_healthy) \<in> set ms.
               (is_healthy \<longrightarrow> truthy (get_model_endpoint settings name))
               \<and> (\<not> truthy (get_model_endpoint settings name) \<longrightarrow> \<not> is_healthy))"
  using entry_status_healthy_configured
  by (auto simp add: get_models_status_eq get_model_endpoint_simps)

lemma get_models_status_probes:
  "map probe_url (probes (snd (get_models_status client settings st)))
     = map probe_url (probes st)
       @ map (\<lambda>ep. ep @ ''/health'') (configured_endpoints settings)"
  by (simp add: get_models_status_eq entry_status_probes configured_endpoints_eq
      split: option.splits)

lemma models_health_check_eq:
  "models_health_check sys client settings st =
     (let k = entry_status client (kokkoro_endpoint settings) st;
          c = entry_status client (chatterbox_endpoint settings) (snd k);
          detailed =
            [(''kokkoro'',
              \<lparr>healthy = fst k, endpoint = kokkoro_endpoint settings,
               configured = truthy (kokkoro_endpoint settings)\<rparr>),
             (''chatterbox'',
              \<lparr>healthy = fst c, endpoint = chatterbox_endpoint settings,
               configured = truthy (chatterbox_endpoint settings)\<rparr>)]
      in (Inr \<lparr>detailed_status = detailed,
                checked_at = timestamp_now sys,
                total_healthy = length (filter (\<lambda>v. v) [fst k, fst c]),
                total_configured = length (filter (\<lambda>m. configured (snd m)) detailed)\<rparr>,
          snd c))"
  by (simp add: models_health_check_def get_models_status_eq getattr_def Let_def)

lemma models_health_check_state:
  "snd (models_health_check sys client settings st) = snd (get_models_status client settings st)"
  by (simp add: models_health_check_eq get_models_status_eq Let_def)

lemma models_health_check_records:
  "\<exists>r. fst (models_health_check sys client settings st) = Inr r
        \<and> map fst (detailed_status r) = [''kokkoro'', ''chatterbox'']
        \<and> (\<forall>(name, d) \<in> set (detailed_status r).
              (healthy d \<longrightarrow> configured d)
              \<and> (\<not> truthy (get_model_endpoint settings name) \<longrightarrow>
                    \<not> healthy d \<and> \<not> configured d))"
  using entry_status_healthy_configured
  by (auto simp add: models_health_check_eq Let_def get_model_endpoint_simps)

lemma single_model_health_check_invariant:
  "fst (single_model_health_check sys client model_name settings st) = Inr m
     \<Longrightarrow> one_healthy m \<Longrightarrow> one_configured m"
  by (auto simp add: single_model_health_check_def check_model_health_eq
      split: if_splits option.splits)

lemma single_model_health_check_unconfigured:
  assumes "model_name \<in> {''kokkoro'', ''chatterbox''}"
    and "\<not> truthy (get_model_endpoint settings model_name)"
  shows "\<exists>m. single_model_health_check sys client model_name settings st = (Inr m, st)
             \<and> \<not> one_healthy m \<and> \<not> one_configured m"
  using assms
  by (auto simp add: single_model_health_check_def get_model_endpoint_def truthy_def
      split: option.splits)

text \<open>
  Claim C8. The aggregation reports a backend healthy only when its endpoint is
  configured and reports an entry without endpoint as not healthy; its probes go to the
  configured endpoints and to no other. In the records of the detailed health query a
  healthy backend is a configured one, and an entry without endpoint is recorded as not
  healthy and not configured. In the single-model query a healthy record is a configured
  one, and a registered model without endpoint is answered as not healthy and not
  configured with the state untouched: no probe is issued.
\<close>

theorem health_records_invariant:
  "(\<exists>ms. fst (get_models_status client settings st) = Inr ms
         \<and> map fst ms = [''kokkoro'', ''chatterbox'']
         \<and> (\<forall>(name, is_healthy) \<in> set ms.
               (is_healthy \<longrightarrow> truthy (get_model_endpoint settings name))
               \<and> (\<not> truthy (get_model_endpoint settings name) \<longrightarrow> \<not> is_healthy)))
   \<and> map probe_url (probes (snd (get_models_status client settings st)))
       = map probe_url (probes st)
         @ map (\<lambda>ep. ep @ ''/health'') (configured_endpoints settings)
   \<and> (\<exists>r. fst (models_health_check sys client settings st) = Inr r
        \<and> map fst (detailed_status r) = [''kokkoro'', ''chatterbox'']
        \<and> (\<forall>(name, d) \<in> set (detailed_status r).
              (healthy d \<longrightarrow> configured d)
              \<and> (\<not> truthy (get_model_endpoint settings name) \<longrightarrow>
                    \<not> healthy d \<and> \<not> configured d)))
   \<and> snd (models_health_check sys client settings st)
       = snd (get_models_status client settings st)
   \<and> (\<forall>m. fst (single_model_health_check sys client model_name settings st) = Inr m
            \<longrightarrow> one_healthy m \<longrightarrow> one_configured m)
   \<and> (model_name \<in> {''kokkoro'', ''chatterbox''}
        \<and> \<not> truthy (get_model_endpoint settings model_name) \<longrightarrow>
      (\<exists>m. single_model_health_check sys client model_name settings st = (Inr m, st)
            \<and> \<not> one_healthy m \<and> \<not> one_configured m))"
proof (intro conjI allI impI)
  show "\<exists>ms. fst (get_models_status client settings st) = Inr ms
         \<and> map fst ms = [''kokkoro'', ''chatterbox'']
         \<and> (\<forall>(name, is_healthy) \<in> set ms.
               (is_healthy \<longrightarrow> truthy (get_model_endpoint settings name))
               \<and> (\<not> truthy (get_model_endpoint settings name) \<longrightarrow> \<not> is_healthy))"
    by (rule get_models_status_records)
  show "map probe_url (probes (snd (get_models_status client settings st)))
       = map probe_url (probes st)
         @ map (\<lambda>ep. ep @ ''/health'') (configured_endpoints settings)"
    by (rule get_models_status_probes)
  show "\<exists>r. fst (models_health_check sys client settings st) = Inr r
        \<and> map fst (detailed_status r) = [''kokkoro'', ''chatterbox'']
        \<and> (\<forall>(name, d) \<in> set (detailed_status r).
              (healthy d \<longrightarrow> configured d)
              \<and> (\<not> truthy (get_model_endpoint settings name) \<longrightarrow>
                    \<not> healthy d \<and> \<not> configured d))"
    by (rule models_health_check_records)
  show "snd (models_health_check sys client settings st)
       = snd (get_models_status client settings st)"
    by (rule models_health_check_state)
next
  fix m
  assume "fst (single_model_health_check sys client model_name settings st) = Inr m"
    and "one_healthy m"
  then show "one_configured m"
    by (rule single_model_health_check_invariant)
next
  assume "model_name \<in> {''kokkoro'', ''chatterbox''}
        \<and> \<not> truthy (get_model_endpoint settings model_name)"
  then show "\<exists>m. single_model_health_check sys client model_name settings st = (Inr m, st)
            \<and> \<not> one_healthy m \<and> \<not> one_configured m"
    using single_model_health_check_unconfigured by blast
qed

lemma configured_endpoints_kokkoro_only:
  "configured_endpoints kokkoro_only = [''http://kokkoro:8001'']"
  by (simp add: configured_endpoints_eq kokkoro_only_def)

lemma single_model_kokkoro_healthy:
  "\<exists>m. fst (single_model_health_check sample_readings slow_client ''kokkoro'' kokkoro_only fresh)
          = Inr m \<and> one_healthy m"
  by (simp add: single_model_health_check_def getattr_def kokkoro_only_def
      check_model_health_eq is_up_def slow_client_def)

theorem health_records_invariant_witness:
  "map probe_url (probes (snd (get_models_status slow_client kokkoro_only fresh)))
       = [''http://kokkoro:8001/health'']
   \<and> map probe_url (probes (snd (models_health_check sample_readings slow_client kokkoro_only fresh)))
       = [''http://kokkoro:8001/health'']
   \<and> (\<exists>r. fst (models_health_check sample_readings slow_client kokkoro_only fresh) = Inr r
        \<and> map fst (detailed_status r) = [''kokkoro'', ''chatterbox''])
   \<and> (\<exists>m. single_model_health_check sample_readings slow_client ''chatterbox'' kokkoro_only fresh
              = (Inr m, fresh)
            \<and> \<not> one_healthy m \<and> \<not> one_configured m)
   \<and> (\<exists>m. fst (single_model_health_check sample_readings slow_client ''kokkoro'' kokkoro_only fresh)
              = Inr m
            \<and> one_healthy m \<and> one_configured m)"
  using
    health_records_invariant [of slow_client kokkoro_only fresh sample_readings "''chatterbox''"]
    health_records_invariant [of slow_client kokkoro_only fresh sample_readings "''kokkoro''"]
    single_model_kokkoro_healthy
  by (auto simp add: configured_endpoints_kokkoro_only kokkoro_only_endpoint truthy_def fresh_def)

section \<open>The order of the probes\<close>

text \<open>
  Claim C9 as stated fails: with both backends configured, a kokkoro probe of 3 ticks
  and a chatterbox probe of 4, the second probe starts at tick 3, when the first has
  finished, and the run takes 7 ticks, more than the slower probe.
\<close>

theorem get_models_status_concurrent_counterexample:
  "get_ticks slow_client ''http://kokkoro:8001/health'' = 3
   \<and> get_ticks slow_client ''http://chatterbox:8002/health'' = 4
   \<and> probes (snd (get_models_status slow_client both_configured fresh))
       = [\<lparr>probe_url = ''http://kokkoro:8001/health'', started = 0, finished = 3\<rparr>,
          \<lparr>probe_url = ''http://chatterbox:8002/health'', started = 3, finished = 7\<rparr>]
   \<and> waited (snd (get_models_status slow_client both_configured fresh)) = 7
   \<and> \<not> waited (snd (get_models_status slow_client both_configured fresh))
         \<le> max (get_ticks slow_client ''http://kokkoro:8001/health'')
               (get_ticks slow_client ''http://chatterbox:8002/health'')"
  by (simp add: get_models_status_eq entry_status_probes entry_status_waited
      both_configured_def fresh_def slow_client_def)

text \<open>
  Claim C9, amended. Within one aggregation run the probes of the configured backends
  run one after the other in registry order, each starting when the one before it has
  finished, so the time the run waits is the sum of the latencies of its probes.
\<close>

theorem get_models_status_sequential:
  "waited (snd (get_models_status client settings st))
     = waited st + sum_list (map (\<lambda>ep. get_ticks client (ep @ ''/health''))
                               (configured_endpoints settings))
   \<and> (\<exists>new. probes (snd (get_models_status client settings st)) = probes st @ new
         \<and> map probe_url new = map (\<lambda>ep. ep @ ''/health'') (configured_endpoints settings)
         \<and> sequential (waited st) new)"
  by (simp add: get_models_status_eq entry_status_probes entry_status_waited
      configured_endpoints_eq split: option.splits)

section \<open>The request counter\<close>

text \<open>
  Claim C3 fails on the code: a dispatch leaves the request counter as it was. Three
  dispatches against a fresh process leave it at 0, where one quick health check brings
  it to 1.
\<close>

theorem dispatch_leaves_request_counter:
  "request_counter (snd (serve a (PostTTS model_name request) st)) = request_counter st
   \<and> request_counter
        (serve_all a [PostTTS ''unknownmodel'' hello_request,
                      PostTTS ''chatterbox'' hello_request,
                      PostTTS ''kokkoro'' hello_request] fresh) = 0
   \<and> request_counter (serve_all a [GetHealthQuick] fresh) = 1"
  by (simp add: fresh_def quick_health_check_def increment_request_count_def)

end
